theory Spec2Isabelle
  imports Main "HOL-Library.Sublist" "HOL-Library.Char_ord" "HOL-Library.List_Lexorder"
begin

section \<open>The AWS Firehose handler of loki.source.awsfirehose\<close>

text \<open>
  A shallow embedding of \<^verbatim>\<open>component/loki/source/aws_firehose/internal/handler.go\<close>.
  Go strings and byte slices are both sequences of 8-bit bytes: they are \<open>char list\<close>
  here (\<open>char\<close> is an 8-bit byte), so \<^verbatim>\<open>string(decodedRecord)\<close> is the identity.
  A run-time panic of Go is the value \<open>Panic\<close> of the result type. Effects (entries
  handed to the sender, the two counters, readings of the wall clock) are threaded
  through a state record. Log lines are not modelled.
\<close>

type_synonym bytes = "char list"

subsection \<open>Constants and types of handler.go\<close>

definition gzipID1 :: char where "gzipID1 = CHR 0x1F"
definition gzipID2 :: char where "gzipID2 = CHR 0x8B"
definition gzipDeflate :: char where "gzipDeflate = CHR 0x08"

record FirehoseRecord =
  Data :: string

record FirehoseRequest =
  RequestID :: string
  Timestamp :: int
  Records :: "FirehoseRecord list"

record CloudwatchLogEvent =
  ID :: string
  EventTimestamp :: int
  Message :: string

record CloudwatchLogsRecord =
  Owner :: string
  LogGroup :: string
  LogStream :: string
  SubscriptionFilters :: "string list"
  MessageType :: string
  LogEvents :: "CloudwatchLogEvent list"

datatype RecordOrigin = OriginCloudwatchLogs | OriginDirectPUT | OriginUnknown

fun origin_string :: "RecordOrigin \<Rightarrow> string" where
  "origin_string OriginCloudwatchLogs = ''cloudwatch-logs''"
| "origin_string OriginDirectPUT = ''direct-put''"
| "origin_string OriginUnknown = ''unknown''"

text \<open>
  A value returned, or a run-time panic. \<open>IndexOutOfRange i n\<close> is the runtime error
  \<^verbatim>\<open>index out of range [i] with length n\<close>.
\<close>

datatype panic = IndexOutOfRange nat nat

datatype 'a result = Panic panic | Return 'a

subsection \<open>encoding/base64: \<^verbatim>\<open>StdEncoding\<close>\<close>

text \<open>
  The standard library's padded, non-strict standard encoding. \<^verbatim>\<open>Decode\<close> calls
  \<^verbatim>\<open>decodeQuantum\<close> until the input is used up; a quantum reads up to four alphabet
  characters into \<^verbatim>\<open>dbuf\<close>, skipping CR and LF everywhere, and ends early at
  padding, after which only CR and LF may follow. The offset carried by
  \<^verbatim>\<open>CorruptInputError\<close> is left out.
\<close>

definition encodeStd :: string where
  "encodeStd = ''ABCDEFGHIJKLMNOPQRSTUVWXYZabcdefghijklmnopqrstuvwxyz0123456789+/''"

fun index_of :: "'a \<Rightarrow> 'a list \<Rightarrow> nat option" where
  "index_of c [] = None"
| "index_of c (x # xs) =
     (if c = x then Some 0 else (case index_of c xs of None \<Rightarrow> None | Some i \<Rightarrow> Some (Suc i)))"

definition decodeMap :: "char \<Rightarrow> nat option" where
  "decodeMap c = index_of c encodeStd"

datatype b64_error = CorruptInputError

definition is_newline :: "char \<Rightarrow> bool" where
  "is_newline c \<longleftrightarrow> c = CHR 0x0A \<or> c = CHR 0x0D"

definition padChar :: char where "padChar = CHR ''=''"

text \<open>
  The last step of \<^verbatim>\<open>decodeQuantum\<close>: \<open>dlen\<close> six-bit values (two to four; the
  missing ones are 0) are packed into 24 bits, of which the first \<open>dlen - 1\<close> bytes
  are written. The bit fields do not overlap, so the shifts and ors of the source
  (\<^verbatim>\<open>dbuf[0]<<18 | dbuf[1]<<12 | dbuf[2]<<6 | dbuf[3]\<close>) are products and sums here, and
  \<^verbatim>\<open>byte(val>>16)\<close> is \<open>char_of (val div 2 ^ 16)\<close>, which keeps the low eight bits.
\<close>

definition quantum_val :: "nat list \<Rightarrow> nat" where
  "quantum_val dbuf =
     (case dbuf @ [0, 0, 0, 0] of
        d0 # d1 # d2 # d3 # _ \<Rightarrow> d0 * 2 ^ 18 + d1 * 2 ^ 12 + d2 * 2 ^ 6 + d3
      | _ \<Rightarrow> 0)"

definition quantum_bytes :: "nat list \<Rightarrow> bytes" where
  "quantum_bytes dbuf =
     (let val = quantum_val dbuf
      in take (length dbuf - 1)
           [char_of (val div 2 ^ 16), char_of (val div 2 ^ 8), char_of val])"

fun decode_from :: "nat list \<Rightarrow> string \<Rightarrow> b64_error + bytes" where
  "decode_from dbuf [] = (if dbuf = [] then Inr [] else Inl CorruptInputError)"
| "decode_from dbuf (c # src) =
     (case decodeMap c of
        Some out \<Rightarrow>
          (if length dbuf = 3
           then (case decode_from [] src of
                   Inl e \<Rightarrow> Inl e
                 | Inr rest \<Rightarrow> Inr (quantum_bytes (dbuf @ [out]) @ rest))
           else decode_from (dbuf @ [out]) src)
      | None \<Rightarrow>
          if is_newline c then decode_from dbuf src
          else if c \<noteq> padChar then Inl CorruptInputError
          else if length dbuf < 2 then Inl CorruptInputError
          else if length dbuf = 2 then
            (case dropWhile is_newline src of
               [] \<Rightarrow> Inl CorruptInputError
             | c' # src' \<Rightarrow>
                 if c' \<noteq> padChar then Inl CorruptInputError
                 else if dropWhile is_newline src' \<noteq> [] then Inl CorruptInputError
                 else Inr (quantum_bytes dbuf))
          else if dropWhile is_newline src \<noteq> [] then Inl CorruptInputError
          else Inr (quantum_bytes dbuf))"

definition DecodeString :: "string \<Rightarrow> b64_error + bytes" where
  "DecodeString s = decode_from [] s"

text \<open>\<^verbatim>\<open>EncodeToString\<close>: three bytes give four characters; a rest of one or two bytes is padded.\<close>

definition enc6 :: "nat \<Rightarrow> char" where
  "enc6 v = encodeStd ! (v mod 64)"

fun EncodeToString :: "bytes \<Rightarrow> string" where
  "EncodeToString (a # b # c # src) =
     (let val = of_char a * 2 ^ 16 + of_char b * 2 ^ 8 + (of_char c :: nat)
      in enc6 (val div 2 ^ 18) # enc6 (val div 2 ^ 12) # enc6 (val div 2 ^ 6) # enc6 val
           # EncodeToString src)"
| "EncodeToString [a, b] =
     (let val = of_char a * 2 ^ 16 + of_char b * 2 ^ 8 :: nat
      in [enc6 (val div 2 ^ 18), enc6 (val div 2 ^ 12), enc6 (val div 2 ^ 6), padChar])"
| "EncodeToString [a] =
     (let val = of_char a * 2 ^ 16 :: nat
      in [enc6 (val div 2 ^ 18), enc6 (val div 2 ^ 12), padChar, padChar])"
| "EncodeToString [] = []"

subsection \<open>Collaborators outside the repository\<close>

text \<open>
  The gzip reader, the JSON decoder, the relabelling engine, the label grammar of
  \<^verbatim>\<open>prometheus/common/model\<close>, the wall clock and the constant
  \<^verbatim>\<open>lokiClient.ReservedLabelTenantID\<close> are not part of handler.go: the handler is
  parametrised by them. A reader is the bytes it yields and the error that ends it
  (\<open>None\<close> for \<^verbatim>\<open>io.EOF\<close>). Errors of the libraries are their messages.
\<close>

type_synonym reader = "bytes \<times> string option"

type_synonym Labels = "(string \<times> string) list"

type_synonym LabelSet = "string \<rightharpoonup> string"

record Time =
  sec :: int
  nsec :: nat

definition Unix :: "Time \<Rightarrow> int" where
  "Unix t = sec t"

record 'rule deps =
  gzip_NewReader :: "reader \<Rightarrow> string + reader"
  json_Decode :: "reader \<Rightarrow> string + FirehoseRequest"
  json_Unmarshal :: "bytes \<Rightarrow> string + CloudwatchLogsRecord"
  relabel_Process :: "Labels \<Rightarrow> 'rule list \<Rightarrow> Labels \<times> bool"
  LabelName_IsValid :: "string \<Rightarrow> bool"
  LabelValue_IsValid :: "string \<Rightarrow> bool"
  ReservedLabelTenantID :: string
  time_Now :: "nat \<Rightarrow> Time"

subsection \<open>decodeRecord\<close>

datatype decode_error =
    ErrBase64 b64_error
  | ErrCreatingGzipReader string
  | ErrReadingGzippedBytes string

text \<open>Indexing a slice panics out of range.\<close>

definition index :: "bytes \<Rightarrow> nat \<Rightarrow> char result" where
  "index b i = (if i < length b then Return (b ! i) else Panic (IndexOutOfRange i (length b)))"

text \<open>
  The condition \<^verbatim>\<open>decodedRec[0] == gzipID1 && decodedRec[1] == gzipID2 && decodedRec[2] == gzipDeflate\<close>,
  evaluated left to right: \<^verbatim>\<open>&&\<close> does not evaluate its right operand when the left is false.
\<close>

definition isGzipHeader :: "bytes \<Rightarrow> bool result" where
  "isGzipHeader decodedRec =
     (case index decodedRec 0 of
        Panic p \<Rightarrow> Panic p
      | Return b0 \<Rightarrow>
          if b0 \<noteq> gzipID1 then Return False
          else (case index decodedRec 1 of
                  Panic p \<Rightarrow> Panic p
                | Return b1 \<Rightarrow>
                    if b1 \<noteq> gzipID2 then Return False
                    else (case index decodedRec 2 of
                            Panic p \<Rightarrow> Panic p
                          | Return b2 \<Rightarrow> Return (b2 = gzipDeflate))))"

text \<open>
  \<^verbatim>\<open>io.Copy(bufio.NewWriter(&b), gzipReader)\<close>: the \<^verbatim>\<open>bufio.Writer\<close> has nothing
  buffered and its destination, a \<^verbatim>\<open>bytes.Buffer\<close>, is an \<^verbatim>\<open>io.ReaderFrom\<close>, so
  \<^verbatim>\<open>ReadFrom\<close> reads straight into \<open>b\<close> until the reader ends: \<open>b\<close> holds all the
  bytes read, and the error is the reader's, if it did not end with \<^verbatim>\<open>io.EOF\<close>.
\<close>

definition io_Copy :: "reader \<Rightarrow> bytes \<times> string option" where
  "io_Copy r = (fst r, snd r)"

definition decodeRecord ::
  "'rule deps \<Rightarrow> string \<Rightarrow> (bytes \<times> RecordOrigin \<times> decode_error option) result" where
  "decodeRecord d rec =
     (case DecodeString rec of
        Inl err \<Rightarrow> Return ([], OriginUnknown, Some (ErrBase64 err))
      | Inr decodedRec \<Rightarrow>
          (case isGzipHeader decodedRec of
             Panic p \<Rightarrow> Panic p
           | Return False \<Rightarrow> Return (decodedRec, OriginDirectPUT, None)
           | Return True \<Rightarrow>
               (case gzip_NewReader d (decodedRec, None) of
                  Inl err \<Rightarrow> Return ([], OriginCloudwatchLogs, Some (ErrCreatingGzipReader err))
                | Inr gzipReader \<Rightarrow>
                    (case io_Copy gzipReader of
                       (b, Some err) \<Rightarrow>
                         Return ([], OriginCloudwatchLogs, Some (ErrReadingGzippedBytes err))
                     | (b, None) \<Rightarrow> Return (b, OriginCloudwatchLogs, None)))))"

subsection \<open>prometheus/model/labels: the label builder\<close>

text \<open>
  \<^verbatim>\<open>labels.Builder\<close> keeps the base labels, the names deleted and the labels added.
  \<^verbatim>\<open>Set\<close> with an empty value deletes the name. \<^verbatim>\<open>Labels(nil)\<close> allocates a new
  slice: the base labels neither deleted nor added again, then the added ones, sorted
  by name (names are unique, so the sort's stability does not matter).
\<close>

record Builder =
  base :: Labels
  del :: "string list"
  add :: Labels

definition NewBuilder :: "Labels \<Rightarrow> Builder" where
  "NewBuilder b = \<lparr>base = b, del = map fst (filter (\<lambda>l. snd l = []) b), add = []\<rparr>"

definition Del :: "Builder \<Rightarrow> string \<Rightarrow> Builder" where
  "Del b n = b\<lparr>add := filter (\<lambda>a. fst a \<noteq> n) (add b), del := del b @ [n]\<rparr>"

definition Set :: "Builder \<Rightarrow> string \<Rightarrow> string \<Rightarrow> Builder" where
  "Set b n v =
     (if v = [] then Del b n
      else if n \<in> set (map fst (add b))
        then b\<lparr>add := map (\<lambda>a. if fst a = n then (n, v) else a) (add b)\<rparr>
        else b\<lparr>add := add b @ [(n, v)]\<rparr>)"

definition Builder_Labels :: "Builder \<Rightarrow> Labels" where
  "Builder_Labels b =
     (if del b = [] \<and> add b = [] then base b
      else (let res = filter (\<lambda>l. fst l \<notin> set (del b) \<and> fst l \<notin> set (map fst (add b))) (base b)
            in if add b \<noteq> [] then sort_key fst (res @ add b) else res))"

subsection \<open>The handler's state and the HTTP exchange\<close>

record Entry =
  Labels :: LabelSet
  EntryTimestamp :: Time
  Line :: string

text \<open>
  What a request changes: the entries given to \<^verbatim>\<open>sender.Send\<close>, in order; the label
  values with which the counters \<^verbatim>\<open>errors\<close> and \<^verbatim>\<open>recordsReceived\<close> were
  incremented, in order; and how often \<^verbatim>\<open>time.Now\<close> was read.
\<close>

record state =
  sent :: "Entry list"
  errors :: "string list"
  recordsReceived :: "string list"
  ticks :: nat

record 'rule Handler =
  relabelRules :: "'rule list"

record Request =
  Header :: "string \<rightharpoonup> string"
  Body :: bytes

definition Header_Get :: "(string \<rightharpoonup> string) \<Rightarrow> string \<Rightarrow> string" where
  "Header_Get h k = (case h k of None \<Rightarrow> [] | Some v \<Rightarrow> v)"

record Response =
  StatusCode :: nat
  ContentType :: string
  ResponseBody :: string

text \<open>The request is answered, or the handler panics before anything is written.\<close>

datatype outcome = Responded Response | Panicked panic

definition StatusOK :: nat where "StatusOK = 200"
definition StatusBadRequest :: nat where "StatusBadRequest = 400"

text \<open>\<^verbatim>\<open>http.Error\<close> of net/http: a plain-text reply, the message and a line feed.\<close>

definition http_Error :: "string \<Rightarrow> nat \<Rightarrow> Response" where
  "http_Error msg code =
     \<lparr>StatusCode = code, ContentType = ''text/plain; charset=utf-8'',
      ResponseBody = msg @ [CHR 0x0A]\<rparr>"

text \<open>The verb \<^verbatim>\<open>%d\<close> of \<^verbatim>\<open>fmt.Sprintf\<close>: an integer in decimal.\<close>

function digits :: "nat \<Rightarrow> string" where
  "digits n = (if n < 10 then [char_of (48 + n)] else digits (n div 10) @ [char_of (48 + n mod 10)])"
  by pat_completeness auto
termination
  by (relation "measure id") auto

definition Itoa :: "int \<Rightarrow> string" where
  "Itoa i = (if i < 0 then CHR ''-'' # digits (nat (- i)) else digits (nat i))"

definition successResponse :: "string \<Rightarrow> int \<Rightarrow> string" where
  \<open>successResponse firehoseID timestamp =
     ''{"requestId": "'' @ firehoseID @ ''", "timestamp": '' @ Itoa timestamp @ ''}''\<close>

definition errorResponse :: "string \<Rightarrow> int \<Rightarrow> string \<Rightarrow> string" where
  \<open>errorResponse firehoseID timestamp errMsg =
     ''{"requestId": "'' @ firehoseID @ ''", "timestamp": '' @ Itoa timestamp
       @ '', "errorMessage": "'' @ errMsg @ ''"}''\<close>

definition sendAPIResponse ::
  "'rule deps \<Rightarrow> string \<Rightarrow> string \<Rightarrow> nat \<Rightarrow> state \<Rightarrow> outcome \<times> state" where
  "sendAPIResponse d firehoseID errMsg status st =
     (let timestamp = Unix (time_Now d (ticks st));
          st' = st\<lparr>ticks := Suc (ticks st)\<rparr>
      in (Responded \<lparr>StatusCode = status, ContentType = ''application/json'',
            ResponseBody = (if errMsg \<noteq> [] then errorResponse firehoseID timestamp errMsg
                            else successResponse firehoseID timestamp)\<rparr>, st'))"

subsection \<open>postProcessLabels\<close>

definition HasPrefix :: "string \<Rightarrow> string \<Rightarrow> bool" where
  "HasPrefix s p = prefix p s"

definition keepLabel :: "'rule deps \<Rightarrow> string \<times> string \<Rightarrow> LabelSet \<Rightarrow> LabelSet" where
  "keepLabel d lbl entryLabels =
     (if HasPrefix (fst lbl) ''__'' \<and> fst lbl \<noteq> ReservedLabelTenantID d then entryLabels
      else if \<not> LabelName_IsValid d (fst lbl) \<or> \<not> LabelValue_IsValid d (snd lbl) then entryLabels
      else entryLabels(fst lbl \<mapsto> snd lbl))"

text \<open>The relabel rules, if any: \<^verbatim>\<open>lbs, _ = relabel.Process(lbs, h.relabelRules...)\<close>.\<close>

definition applyRelabelRules :: "'rule deps \<Rightarrow> 'rule Handler \<Rightarrow> Labels \<Rightarrow> Labels" where
  "applyRelabelRules d h lbs =
     (if length (relabelRules h) > 0 then fst (relabel_Process d lbs (relabelRules h)) else lbs)"

definition postProcessLabels :: "'rule deps \<Rightarrow> 'rule Handler \<Rightarrow> Labels \<Rightarrow> LabelSet" where
  "postProcessLabels d h lbs = fold (keepLabel d) (applyRelabelRules d h lbs) Map.empty"

subsection \<open>handleCloudwatchLogsRecord\<close>

fun Join :: "string list \<Rightarrow> string \<Rightarrow> string" where
  "Join [] sep = []"
| "Join [x] sep = x"
| "Join (x # y # ys) sep = x @ sep @ Join (y # ys) sep"

definition Send :: "Entry \<Rightarrow> state \<Rightarrow> state" where
  "Send e st = st\<lparr>sent := sent st @ [e]\<rparr>"

text \<open>One entry, stamped with a new reading of the clock.\<close>

definition sendLine :: "'rule deps \<Rightarrow> LabelSet \<Rightarrow> string \<Rightarrow> state \<Rightarrow> state" where
  "sendLine d ls line st =
     Send \<lparr>Labels = ls, EntryTimestamp = time_Now d (ticks st), Line = line\<rparr>
       (st\<lparr>ticks := Suc (ticks st)\<rparr>)"

definition cwLogsLabels :: "CloudwatchLogsRecord \<Rightarrow> Labels \<Rightarrow> Builder" where
  "cwLogsLabels cwRecord commonLabels =
     (let b = NewBuilder commonLabels;
          b = Set b ''__aws_owner'' (Owner cwRecord);
          b = Set b ''__aws_cw_log_group'' (LogGroup cwRecord);
          b = Set b ''__aws_cw_log_stream'' (LogStream cwRecord);
          b = Set b ''__aws_cw_matched_filters'' (Join (SubscriptionFilters cwRecord) '','');
          b = Set b ''__aws_cw_msg_type'' (MessageType cwRecord)
      in b)"

fun sendEvents ::
  "'rule deps \<Rightarrow> 'rule Handler \<Rightarrow> Builder \<Rightarrow> CloudwatchLogEvent list \<Rightarrow> state \<Rightarrow> state" where
  "sendEvents d h b [] st = st"
| "sendEvents d h b (event # events) st =
     sendEvents d h b events
       (sendLine d (postProcessLabels d h (Builder_Labels b)) (Message event) st)"

definition handleCloudwatchLogsRecord ::
  "'rule deps \<Rightarrow> 'rule Handler \<Rightarrow> bytes \<Rightarrow> Labels \<Rightarrow> state \<Rightarrow> string option \<times> state" where
  "handleCloudwatchLogsRecord d h data commonLabels st =
     (case json_Unmarshal d data of
        Inl err \<Rightarrow> (Some err, st)
      | Inr cwRecord \<Rightarrow>
          (None, sendEvents d h (cwLogsLabels cwRecord commonLabels) (LogEvents cwRecord) st))"

subsection \<open>ServeHTTP\<close>

definition incErrors :: "string \<Rightarrow> state \<Rightarrow> state" where
  "incErrors stage st = st\<lparr>errors := errors st @ [stage]\<rparr>"

definition incRecordsReceived :: "RecordOrigin \<Rightarrow> state \<Rightarrow> state" where
  "incRecordsReceived origin st = st\<lparr>recordsReceived := recordsReceived st @ [origin_string origin]\<rparr>"

definition buildCommonLabels :: "'rule deps \<Rightarrow> (string \<rightharpoonup> string) \<Rightarrow> Builder" where
  "buildCommonLabels d hdr =
     (let b = NewBuilder [];
          b = Set b ''__aws_firehose_request_id'' (Header_Get hdr ''X-Amz-Firehose-Request-Id'');
          b = Set b ''__aws_firehose_source_arn'' (Header_Get hdr ''X-Amz-Firehose-Source-Arn'');
          tenantHeader = Header_Get hdr ''X-Scope-OrgID''
      in if tenantHeader \<noteq> [] then Set b (ReservedLabelTenantID d) tenantHeader else b)"

text \<open>The \<^verbatim>\<open>switch recordType\<close> of the loop body: the error of the record, and the state.\<close>

definition handleRecord ::
  "'rule deps \<Rightarrow> 'rule Handler \<Rightarrow> Builder \<Rightarrow> bytes \<Rightarrow> RecordOrigin \<Rightarrow> state
     \<Rightarrow> string option \<times> state" where
  "handleRecord d h commonLabels decodedRecord recordType st =
     (case recordType of
        OriginDirectPUT \<Rightarrow>
          (None, sendLine d (postProcessLabels d h (Builder_Labels commonLabels)) decodedRecord st)
      | OriginCloudwatchLogs \<Rightarrow>
          handleCloudwatchLogsRecord d h decodedRecord (Builder_Labels commonLabels) st
      | OriginUnknown \<Rightarrow> (None, st))"

text \<open>
  The loop over \<^verbatim>\<open>firehoseReq.Records\<close>. \<open>Some\<close> is a return (or a panic) from
  within the loop; \<open>None\<close> is the loop running to its end.
\<close>

fun recordsLoop ::
  "'rule deps \<Rightarrow> 'rule Handler \<Rightarrow> string \<Rightarrow> Builder \<Rightarrow> FirehoseRecord list \<Rightarrow> state
     \<Rightarrow> outcome option \<times> state" where
  "recordsLoop d h requestID commonLabels [] st = (None, st)"
| "recordsLoop d h requestID commonLabels (rec # recs) st =
     (case decodeRecord d (Data rec) of
        Panic p \<Rightarrow> (Some (Panicked p), st)
      | Return (decodedRecord, recordType, Some err) \<Rightarrow>
          (case sendAPIResponse d requestID ''failed to decode record'' StatusBadRequest
                  (incErrors ''decode'' st) of
             (out, st') \<Rightarrow> (Some out, st'))
      | Return (decodedRecord, recordType, None) \<Rightarrow>
          (case handleRecord d h commonLabels decodedRecord recordType
                  (incRecordsReceived recordType st) of
             (Some err, st') \<Rightarrow>
               (case sendAPIResponse d requestID ''failed to handle cloudwatch record''
                       StatusBadRequest (incErrors ''handle_cw'' st') of
                  (out, st'') \<Rightarrow> (Some out, st''))
           | (None, st') \<Rightarrow> recordsLoop d h requestID commonLabels recs st'))"

text \<open>The reader of the body: a gzip reader over it when the content encoding says so.\<close>

definition bodyReader :: "'rule deps \<Rightarrow> Request \<Rightarrow> string + reader" where
  "bodyReader d req =
     (if Header_Get (Header req) ''Content-Encoding'' = ''gzip''
      then gzip_NewReader d (Body req, None) else Inr (Body req, None))"

definition ServeHTTP :: "'rule deps \<Rightarrow> 'rule Handler \<Rightarrow> Request \<Rightarrow> state \<Rightarrow> outcome \<times> state" where
  "ServeHTTP d h req st =
     (case bodyReader d req of
        Inl err \<Rightarrow> (Responded (http_Error err StatusBadRequest), incErrors ''pre_read'' st)
      | Inr r \<Rightarrow>
          (case json_Decode d r of
             Inl err \<Rightarrow>
               (Responded (http_Error err StatusBadRequest), incErrors ''read_or_format'' st)
           | Inr firehoseReq \<Rightarrow>
               (case recordsLoop d h (RequestID firehoseReq) (buildCommonLabels d (Header req))
                       (Records firehoseReq) st of
                  (Some out, st') \<Rightarrow> (out, st')
                | (None, st') \<Rightarrow> sendAPIResponse d (RequestID firehoseReq) [] StatusOK st')))"

subsection \<open>A concrete instance of the collaborators\<close>

text \<open>
  For runs on concrete requests. The label grammar is that of \<^verbatim>\<open>prometheus/common\<close>:
  a name is a non-empty sequence of ASCII letters, digits and underscores that does not
  start with a digit; a value is any valid UTF-8 string. Relabelling rules are functions
  on label lists, applied in turn. The clock advances one second per reading. The gzip
  and JSON libraries are given by their results on the inputs used in this theory, and
  fail on every other input.
\<close>

definition is_letter :: "char \<Rightarrow> bool" where
  "is_letter b \<longleftrightarrow> (CHR ''a'' \<le> b \<and> b \<le> CHR ''z'') \<or> (CHR ''A'' \<le> b \<and> b \<le> CHR ''Z'')"

definition is_digit :: "char \<Rightarrow> bool" where
  "is_digit b \<longleftrightarrow> CHR ''0'' \<le> b \<and> b \<le> CHR ''9''"

fun name_bytes_valid :: "bool \<Rightarrow> string \<Rightarrow> bool" where
  "name_bytes_valid first [] = True"
| "name_bytes_valid first (b # bs) =
     ((is_letter b \<or> b = CHR ''_'' \<or> (is_digit b \<and> \<not> first)) \<and> name_bytes_valid False bs)"

definition name_IsValid :: "string \<Rightarrow> bool" where
  "name_IsValid ln \<longleftrightarrow> ln \<noteq> [] \<and> name_bytes_valid True ln"

definition is_cont :: "char \<Rightarrow> bool" where
  "is_cont c \<longleftrightarrow> CHR 0x80 \<le> c \<and> c \<le> CHR 0xBF"

fun utf8_ValidString :: "string \<Rightarrow> bool" where
  "utf8_ValidString [] = True"
| "utf8_ValidString [x] = (x < CHR 0x80)"
| "utf8_ValidString [x, c1] =
     (if x < CHR 0x80 then utf8_ValidString [c1]
      else CHR 0xC2 \<le> x \<and> x \<le> CHR 0xDF \<and> is_cont c1)"
| "utf8_ValidString [x, c1, c2] =
     (if x < CHR 0x80 then utf8_ValidString [c1, c2]
      else if CHR 0xC2 \<le> x \<and> x \<le> CHR 0xDF then is_cont c1 \<and> utf8_ValidString [c2]
      else CHR 0xE0 \<le> x \<and> x \<le> CHR 0xEF \<and> is_cont c1 \<and> is_cont c2
        \<and> (if x = CHR 0xE0 then CHR 0xA0 \<le> c1 else if x = CHR 0xED then c1 \<le> CHR 0x9F else True))"
| "utf8_ValidString (x # c1 # c2 # c3 # s) =
     (if x < CHR 0x80 then utf8_ValidString (c1 # c2 # c3 # s)
      else if CHR 0xC2 \<le> x \<and> x \<le> CHR 0xDF then is_cont c1 \<and> utf8_ValidString (c2 # c3 # s)
      else if CHR 0xE0 \<le> x \<and> x \<le> CHR 0xEF then
        is_cont c1 \<and> is_cont c2
        \<and> (if x = CHR 0xE0 then CHR 0xA0 \<le> c1 else if x = CHR 0xED then c1 \<le> CHR 0x9F else True)
        \<and> utf8_ValidString (c3 # s)
      else CHR 0xF0 \<le> x \<and> x \<le> CHR 0xF4 \<and> is_cont c1 \<and> is_cont c2 \<and> is_cont c3
        \<and> (if x = CHR 0xF0 then CHR 0x90 \<le> c1 else if x = CHR 0xF4 then c1 \<le> CHR 0x8F else True)
        \<and> utf8_ValidString s)"

type_synonym rule = "Labels \<Rightarrow> Labels"

definition apply_rules :: "Labels \<Rightarrow> rule list \<Rightarrow> Labels \<times> bool" where
  "apply_rules lbs rules = (fold (\<lambda>r l. r l) rules lbs, True)"

text \<open>A rule that renames one label, as a \<^verbatim>\<open>replace\<close> action followed by a drop of the source does.\<close>

definition rename_rule :: "string \<Rightarrow> string \<Rightarrow> rule" where
  "rename_rule src dst lbs = sort_key fst (map (\<lambda>l. if fst l = src then (dst, snd l) else l) lbs)"

definition clock :: "nat \<Rightarrow> Time" where
  "clock n = \<lparr>sec = 1700000000 + int n, nsec = 0\<rparr>"

text \<open>The gzip stream of the two bytes \<^verbatim>\<open>hi\<close>, and that of a CloudWatch data message.\<close>

definition gz_hi :: bytes where
  "gz_hi =
    [CHR 0x1F, CHR 0x8B, CHR 0x08, CHR 0x00, CHR 0x00, CHR 0x00, CHR 0x00, CHR 0x00,
     CHR 0x02, CHR 0x03, CHR 0xCB, CHR 0xC8, CHR 0x04, CHR 0x00, CHR 0xAC, CHR 0x2A,
     CHR 0x93, CHR 0xD8, CHR 0x02, CHR 0x00, CHR 0x00, CHR 0x00]"

definition data_message_json :: string where
  \<open>data_message_json =
    ''{"owner":"1","logGroup":"lg","messageType":"DATA_MESSAGE","logEvents":[{"message":"m1"},{"message":"m2"}]}''\<close>

definition data_message :: CloudwatchLogsRecord where
  "data_message =
     \<lparr>Owner = ''1'', LogGroup = ''lg'', LogStream = [], SubscriptionFilters = [],
      MessageType = ''DATA_MESSAGE'',
      LogEvents = [\<lparr>ID = [], EventTimestamp = 0, Message = ''m1''\<rparr>,
                   \<lparr>ID = [], EventTimestamp = 0, Message = ''m2''\<rparr>]\<rparr>"

definition gz_data_message :: bytes where
  "gz_data_message =
    [CHR 0x1F, CHR 0x8B, CHR 0x08, CHR 0x00, CHR 0x00, CHR 0x00, CHR 0x00, CHR 0x00,
     CHR 0x02, CHR 0x03, CHR 0xAB, CHR 0x56, CHR 0xCA, CHR 0x2F, CHR 0xCF, CHR 0x4B,
     CHR 0x2D, CHR 0x52, CHR 0xB2, CHR 0x52, CHR 0x32, CHR 0x54, CHR 0xD2, CHR 0x51,
     CHR 0xCA, CHR 0xC9, CHR 0x4F, CHR 0x77, CHR 0x2F, CHR 0xCA, CHR 0x2F, CHR 0x2D,
     CHR 0x00, CHR 0x72, CHR 0x73, CHR 0xD2, CHR 0x81, CHR 0xFC, CHR 0xDC, CHR 0xD4,
     CHR 0xE2, CHR 0xE2, CHR 0xC4, CHR 0xF4, CHR 0xD4, CHR 0x90, CHR 0xCA, CHR 0x82,
     CHR 0x54, CHR 0xA0, CHR 0x90, CHR 0x8B, CHR 0x63, CHR 0x88, CHR 0x63, CHR 0xBC,
     CHR 0xAF, CHR 0x6B, CHR 0x70, CHR 0xB0, CHR 0xA3, CHR 0xBB, CHR 0x2B, CHR 0x44,
     CHR 0xB1, CHR 0x6B, CHR 0x59, CHR 0x6A, CHR 0x5E, CHR 0x49, CHR 0xB1, CHR 0x92,
     CHR 0x55, CHR 0x74, CHR 0x35, CHR 0x4C, CHR 0x29, CHR 0x50, CHR 0x59, CHR 0xAE,
     CHR 0xA1, CHR 0x52, CHR 0xAD, CHR 0x0E, CHR 0x8A, CHR 0x80, CHR 0x91, CHR 0x52,
     CHR 0x6D, CHR 0x6C, CHR 0x2D, CHR 0x00, CHR 0x4D, CHR 0x2B, CHR 0xFD, CHR 0x54,
     CHR 0x6A, CHR 0x00, CHR 0x00, CHR 0x00]"

definition data_message_record :: string where
  "data_message_record =
    ''H4sIAAAAAAACA6tWyi/PSy1SslIyVNJRyslPdy/KLy0AcnPSgfzc1OLixPTUkMqCVKCQi2OIY7yva3Cwo7srRLFrWWpeSbGSVXQ1TClQWa6hUq0OioCRUm1sLQBNK/1UagAAAA==''"

text \<open>The control message that CloudWatch Logs sends to check that the destination is reachable.\<close>

definition control_message_json :: string where
  \<open>control_message_json =
    ''{"messageType":"CONTROL_MESSAGE","owner":"CloudwatchLogs","logGroup":"","logStream":"","subscriptionFilters":[],"logEvents":[{"id":"","timestamp":1510254469274,"message":"CWL CONTROL MESSAGE: Checking health of destination Firehose."}]}''\<close>

definition control_message :: CloudwatchLogsRecord where
  "control_message =
     \<lparr>Owner = ''CloudwatchLogs'', LogGroup = [], LogStream = [], SubscriptionFilters = [],
      MessageType = ''CONTROL_MESSAGE'',
      LogEvents = [\<lparr>ID = [], EventTimestamp = 1510254469274,
                    Message = ''CWL CONTROL MESSAGE: Checking health of destination Firehose.''\<rparr>]\<rparr>"

definition gunzip_table :: "reader \<Rightarrow> string + reader" where
  "gunzip_table r =
     (if r = (gz_hi, None) then Inr (''hi'', None)
      else if r = (gz_data_message, None) then Inr (data_message_json, None)
      else Inl ''gzip: invalid header'')"

definition unmarshal_table :: "bytes \<Rightarrow> string + CloudwatchLogsRecord" where
  "unmarshal_table data =
     (if data = data_message_json then Inr data_message
      else if data = control_message_json then Inr control_message
      else Inl ''unexpected end of JSON input'')"

definition body_empty :: string where
  \<open>body_empty = ''{"requestId":"req-1","timestamp":1700000000000,"records":[]}''\<close>

definition body_short :: string where
  \<open>body_short = ''{"requestId":"req-2","timestamp":1700000000000,"records":[{"data":""},{"data":"!"}]}''\<close>

definition body_hello :: string where
  \<open>body_hello = ''{"requestId":"req-3","timestamp":1700000000000,"records":[{"data":"aGVsbG8gd29ybGQ="}]}''\<close>

definition body_mixed :: string where
  \<open>body_mixed = ''{"requestId":"req-4","timestamp":1700000000000,"records":[{"data":"''
     @ data_message_record @ ''"},{"data":"aGVsbG8gd29ybGQ="}]}''\<close>

definition decode_table :: "reader \<Rightarrow> string + FirehoseRequest" where
  "decode_table r =
     (if r = (body_empty, None)
        then Inr \<lparr>RequestID = ''req-1'', Timestamp = 1700000000000, Records = []\<rparr>
      else if r = (body_short, None)
        then Inr \<lparr>RequestID = ''req-2'', Timestamp = 1700000000000,
                  Records = [\<lparr>Data = []\<rparr>, \<lparr>Data = ''!''\<rparr>]\<rparr>
      else if r = (body_hello, None)
        then Inr \<lparr>RequestID = ''req-3'', Timestamp = 1700000000000,
                  Records = [\<lparr>Data = ''aGVsbG8gd29ybGQ=''\<rparr>]\<rparr>
      else if r = (body_mixed, None)
        then Inr \<lparr>RequestID = ''req-4'', Timestamp = 1700000000000,
                  Records = [\<lparr>Data = data_message_record\<rparr>, \<lparr>Data = ''aGVsbG8gd29ybGQ=''\<rparr>]\<rparr>
      else Inl ''unexpected EOF'')"

definition example_deps :: "rule deps" where
  "example_deps =
     \<lparr>gzip_NewReader = gunzip_table, json_Decode = decode_table, json_Unmarshal = unmarshal_table,
      relabel_Process = apply_rules, LabelName_IsValid = name_IsValid,
      LabelValue_IsValid = utf8_ValidString, ReservedLabelTenantID = ''__tenant_id__'',
      time_Now = clock\<rparr>"

definition firehose_headers :: "string \<rightharpoonup> string" where
  "firehose_headers =
     [''X-Amz-Firehose-Request-Id'' \<mapsto> ''req-id'',
      ''X-Amz-Firehose-Source-Arn'' \<mapsto> ''arn:aws:firehose:us-east-2:123:deliverystream/s'']"

definition no_rules :: "rule Handler" where
  "no_rules = \<lparr>relabelRules = []\<rparr>"

definition init :: state where
  "init = \<lparr>sent = [], errors = [], recordsReceived = [], ticks = 0\<rparr>"

text \<open>Handlers with one relabel rule, and a label list with labels of every kind.\<close>

definition relabel_request_id :: "rule Handler" where
  "relabel_request_id = \<lparr>relabelRules = [rename_rule ''__aws_firehose_request_id'' ''request_id'']\<rparr>"

definition log_group_rule :: "rule Handler" where
  "log_group_rule = \<lparr>relabelRules = [rename_rule ''__aws_cw_log_group'' ''log_group'']\<rparr>"

definition example_labels :: Labels where
  "example_labels =
     [(''__aws_firehose_request_id'', ''req-id''), (''__aws_firehose_source_arn'', ''arn''),
      (''__tenant_id__'', ''t1''), (''bad-name'', ''x''), (''ok'', [CHR 0xFF])]"

section \<open>Properties\<close>

subsection \<open>base64: decoding inverts encoding\<close>

lemma index_of_nth: "distinct xs \<Longrightarrow> i < length xs \<Longrightarrow> index_of (xs ! i) xs = Some i"
proof (induction xs arbitrary: i)
  case Nil
  then show ?case by simp
next
  case (Cons x xs)
  show ?case
  proof (cases i)
    case 0
    then show ?thesis by simp
  next
    case (Suc j)
    with Cons.prems have "xs ! j \<noteq> x" "j < length xs" "distinct xs" by auto
    with Cons.IH[of j] Suc show ?thesis by simp
  qed
qed

lemma distinct_encodeStd: "distinct encodeStd"
  by (simp add: encodeStd_def)

lemma length_encodeStd: "length encodeStd = 64"
  by (simp add: encodeStd_def)

lemma decodeMap_enc6: "decodeMap (enc6 v) = Some (v mod 64)"
  by (simp add: decodeMap_def enc6_def index_of_nth distinct_encodeStd length_encodeStd)

lemma decodeMap_padChar: "decodeMap padChar = None"
  by (simp add: decodeMap_def padChar_def encodeStd_def)

lemma padChar_not_newline: "\<not> is_newline padChar"
  by (simp add: padChar_def is_newline_def)

lemma sextets4:
  fixes v :: nat
  assumes "v < 2 ^ 24"
  shows "quantum_val [v div 262144 mod 64, v div 4096 mod 64, v div 64 mod 64, v mod 64] = v"
proof -
  define a where "a = v div 64"
  define b where "b = a div 64"
  define c where "c = b div 64"
  define r0 where "r0 = v mod 64"
  define r1 where "r1 = a mod 64"
  define r2 where "r2 = b mod 64"
  have v: "v = a * 64 + r0" by (simp add: a_def r0_def)
  have a: "a = b * 64 + r1" by (simp add: b_def r1_def)
  have b: "b = c * 64 + r2" by (simp add: c_def r2_def)
  have e12: "v div 4096 = b" by (simp add: a_def b_def div_mult2_eq)
  have e18: "v div 262144 = c" by (simp add: a_def b_def c_def div_mult2_eq)
  have "c < 64" using assms unfolding e18[symmetric] by (simp add: less_mult_imp_div_less)
  then have c: "c mod 64 = c" by simp
  have "c * 2 ^ 18 + r2 * 2 ^ 12 + r1 * 2 ^ 6 + r0 = v"
    using v a b by simp
  then show ?thesis
    by (simp add: quantum_val_def e12 e18 c) (simp add: r2_def r1_def a_def r0_def)
qed

lemma bytes3:
  fixes A B C :: nat
  assumes "A < 256" "B < 256" "C < 256"
  shows "(A * 65536 + B * 256 + C) div 65536 = A"
    and "(A * 65536 + B * 256 + C) div 256 mod 256 = B"
    and "(A * 65536 + B * 256 + C) mod 256 = C"
    and "A * 65536 + B * 256 + C < 16777216"
proof -
  have e: "A * 65536 + B * 256 + C = (A * 256 + B) * 256 + C" by simp
  have d: "((A * 256 + B) * 256 + C) div 256 = A * 256 + B"
    using assms(3) by (simp only: div_mult_self3 div_less add_0_right)
  show "(A * 65536 + B * 256 + C) div 256 mod 256 = B"
    unfolding e d using assms(2) by simp
  show "(A * 65536 + B * 256 + C) mod 256 = C"
    unfolding e using assms(3) by (simp only: mod_mult_self3 mod_less)
  show "(A * 65536 + B * 256 + C) div 65536 = A"
    using assms by simp
  show "A * 65536 + B * 256 + C < 16777216"
    using assms by simp
qed

lemma quantum_bytes4:
  fixes a b c :: char
  defines "v \<equiv> of_char a * 65536 + of_char b * 256 + (of_char c :: nat)"
  shows "quantum_bytes [v div 262144 mod 64, v div 4096 mod 64, v div 64 mod 64, v mod 64] = [a, b, c]"
proof -
  have lt: "v < 2 ^ 24" unfolding v_def using bytes3(4)[of "of_char a" "of_char b" "of_char c"] by simp
  note val = sextets4[OF lt]
  have 1: "char_of (v div 65536) = a"
    unfolding v_def using bytes3(1)[of "of_char a" "of_char b" "of_char c"] by simp
  have "char_of (v div 256) = char_of (v div 256 mod 256)" by simp
  also have "\<dots> = b"
    unfolding v_def using bytes3(2)[of "of_char a" "of_char b" "of_char c"] by simp
  finally have 2: "char_of (v div 256) = b" .
  have "char_of v = char_of (v mod 256)" by simp
  also have "\<dots> = c"
    unfolding v_def using bytes3(3)[of "of_char a" "of_char b" "of_char c"] by simp
  finally have 3: "char_of v = c" .
  show ?thesis
    by (simp add: quantum_bytes_def val 1 2 3)
qed

lemma decode_from_quantum4:
  "decode_from [] (enc6 s0 # enc6 s1 # enc6 s2 # enc6 s3 # src) =
     (case decode_from [] src of
        Inl e \<Rightarrow> Inl e
      | Inr rest \<Rightarrow> Inr (quantum_bytes [s0 mod 64, s1 mod 64, s2 mod 64, s3 mod 64] @ rest))"
  by (simp add: decodeMap_enc6 split: sum.split)

lemma decode_from_quantum3:
  "decode_from [] [enc6 s0, enc6 s1, enc6 s2, padChar] = Inr (quantum_bytes [s0 mod 64, s1 mod 64, s2 mod 64])"
  by (simp add: decodeMap_enc6 decodeMap_padChar padChar_not_newline)

lemma decode_from_quantum2:
  "decode_from [] [enc6 s0, enc6 s1, padChar, padChar] = Inr (quantum_bytes [s0 mod 64, s1 mod 64])"
  by (simp add: decodeMap_enc6 decodeMap_padChar padChar_not_newline)

lemma quantum_val_pad:
  "quantum_val [s0, s1, s2] = quantum_val [s0, s1, s2, 0]"
  "quantum_val [s0, s1] = quantum_val [s0, s1, 0, 0]"
  by (simp_all add: quantum_val_def)

lemma quantum_bytes3:
  fixes a b :: char
  defines "v \<equiv> of_char a * 65536 + of_char b * 256 + (0 :: nat)"
  shows "quantum_bytes [v div 262144 mod 64, v div 4096 mod 64, v div 64 mod 64] = [a, b]"
proof -
  have lt: "v < 2 ^ 24" unfolding v_def using bytes3(4)[of "of_char a" "of_char b" 0] by simp
  have "v = (of_char a * 1024 + of_char b * 4) * 64" by (simp add: v_def)
  then have m: "v mod 64 = 0" by simp
  have val: "quantum_val [v div 262144 mod 64, v div 4096 mod 64, v div 64 mod 64] = v"
    using sextets4[OF lt] by (simp only: quantum_val_pad m)
  have 1: "char_of (v div 65536) = a"
    unfolding v_def using bytes3(1)[of "of_char a" "of_char b" 0] by simp
  have "char_of (v div 256) = char_of (v div 256 mod 256)" by simp
  also have "\<dots> = b"
    unfolding v_def using bytes3(2)[of "of_char a" "of_char b" 0] by simp
  finally have 2: "char_of (v div 256) = b" .
  show ?thesis
    by (simp add: quantum_bytes_def val 1 2)
qed

lemma quantum_bytes2:
  fixes a :: char
  defines "v \<equiv> of_char a * 65536 + 0 * 256 + (0 :: nat)"
  shows "quantum_bytes [v div 262144 mod 64, v div 4096 mod 64] = [a]"
proof -
  have lt: "v < 2 ^ 24" unfolding v_def using bytes3(4)[of "of_char a" 0 0] by simp
  have "v = (of_char a * 1024) * 64" by (simp add: v_def)
  then have m: "v mod 64 = 0" by simp
  have "v div 64 = (of_char a * 16) * 64" by (simp add: v_def)
  then have m2: "v div 64 mod 64 = 0" by simp
  have val: "quantum_val [v div 262144 mod 64, v div 4096 mod 64] = v"
    using sextets4[OF lt] by (simp only: quantum_val_pad m m2)
  have 1: "char_of (v div 65536) = a"
    unfolding v_def using bytes3(1)[of "of_char a" 0 0] by simp
  show ?thesis
    by (simp add: quantum_bytes_def val 1)
qed

lemma decode_from_EncodeToString: "decode_from [] (EncodeToString b) = Inr b"
proof (induction b rule: EncodeToString.induct)
  case (1 a b c src)
  show ?case
    using quantum_bytes4[of a b c] 1
    by (simp add: Let_def decode_from_quantum4 del: decode_from.simps)
next
  case (2 a b)
  show ?case
    using quantum_bytes3[of a b]
    by (simp add: Let_def decode_from_quantum3 del: decode_from.simps)
next
  case (3 a)
  show ?case
    using quantum_bytes2[of a]
    by (simp add: Let_def decode_from_quantum2 del: decode_from.simps)
next
  case 4
  show ?case by simp
qed

lemma DecodeString_EncodeToString: "DecodeString (EncodeToString b) = Inr b"
  by (simp add: DecodeString_def decode_from_EncodeToString)

text \<open>Evaluation of the codec on literals.\<close>

lemma bit_Suc_Suc_0_iff: "bit (Suc (Suc 0)) n \<longleftrightarrow> n = 1"
  using bit_2_iff[where ?'a = nat, of n] by (simp add: numeral_2_eq_2)

lemmas b64_eval = DecodeString_def decodeMap_def encodeStd_def padChar_def is_newline_def
  quantum_bytes_def quantum_val_def char_of_def bit_Suc_0_iff bit_Suc_Suc_0_iff enc6_def

lemma DecodeString_empty: "DecodeString [] = Inr []"
  by (simp add: DecodeString_def)

lemma DecodeString_1f: "DecodeString ''Hw=='' = Inr [CHR 0x1F]"
  by (simp add: b64_eval)

lemma DecodeString_1f8b: "DecodeString ''H4s='' = Inr [CHR 0x1F, CHR 0x8B]"
  by (simp add: b64_eval)

lemma DecodeString_hello: "DecodeString ''aGVsbG8gd29ybGQ='' = Inr ''hello world''"
  by (simp add: DecodeString_def decodeMap_def encodeStd_def padChar_def is_newline_def
        quantum_bytes_def quantum_val_def char_of_def bit_Suc_0_iff)

lemma DecodeString_data_message_record: "DecodeString data_message_record = Inr gz_data_message"
  by (simp add: data_message_record_def gz_data_message_def b64_eval)

lemma EncodeToString_gz_hi: "EncodeToString gz_hi = ''H4sIAAAAAAACA8vIBACsKpPYAgAAAA==''"
  by (simp add: gz_hi_def b64_eval)

subsection \<open>decodeRecord\<close>

lemma isGzipHeader_Nil: "isGzipHeader [] = Panic (IndexOutOfRange 0 0)"
  by (simp add: isGzipHeader_def index_def)

lemma isGzipHeader_1:
  "isGzipHeader [a] = (if a \<noteq> gzipID1 then Return False else Panic (IndexOutOfRange 1 1))"
  by (simp add: isGzipHeader_def index_def)

lemma isGzipHeader_2:
  "isGzipHeader [a, b] =
     (if a \<noteq> gzipID1 \<or> b \<noteq> gzipID2 then Return False else Panic (IndexOutOfRange 2 2))"
  by (simp add: isGzipHeader_def index_def)

lemma isGzipHeader_3:
  "isGzipHeader (a # b # c # rest) = Return (a = gzipID1 \<and> b = gzipID2 \<and> c = gzipDeflate)"
  by (simp add: isGzipHeader_def index_def)

lemma isGzipHeader_magic:
  assumes "take 3 z = [gzipID1, gzipID2, gzipDeflate]"
  shows "isGzipHeader z = Return True"
proof -
  from assms obtain rest where "z = gzipID1 # gzipID2 # gzipDeflate # rest"
    by (cases z; cases "tl z"; cases "tl (tl z)") (simp_all)
  then show ?thesis by (simp add: isGzipHeader_3)
qed

lemma isGzipHeader_hello: "isGzipHeader ''hello world'' = Return False"
  by (simp add: isGzipHeader_def index_def gzipID1_def)

lemma isGzipHeader_data_message: "isGzipHeader gz_data_message = Return True"
  by (simp add: gz_data_message_def isGzipHeader_def index_def gzipID1_def gzipID2_def gzipDeflate_def)

text \<open>What decodeRecord does with a record of fewer than three bytes, case by case.\<close>

lemma decodeRecord_short:
  assumes "DecodeString rec = Inr b" and "length b < 3"
  shows "decodeRecord d rec =
     (if b = [] then Panic (IndexOutOfRange 0 0)
      else if b ! 0 \<noteq> gzipID1 then Return (b, OriginDirectPUT, None)
      else if length b = 1 then Panic (IndexOutOfRange 1 1)
      else if b ! 1 \<noteq> gzipID2 then Return (b, OriginDirectPUT, None)
      else Panic (IndexOutOfRange 2 2))"
proof -
  consider "b = []" | x where "b = [x]" | x y where "b = [x, y]"
    using assms(2) by (cases b; cases "tl b"; cases "tl (tl b)") auto
  then show ?thesis
  proof cases
    case 1
    then show ?thesis using assms(1) by (simp add: decodeRecord_def isGzipHeader_def index_def)
  next
    case 2
    then show ?thesis using assms(1) by (simp add: decodeRecord_def isGzipHeader_def index_def)
  next
    case 3
    then show ?thesis using assms(1) by (simp add: decodeRecord_def isGzipHeader_def index_def)
  qed
qed

lemma decodeRecord_direct_put:
  assumes "DecodeString (Data rec) = Inr decoded" and "isGzipHeader decoded = Return False"
  shows "decodeRecord d (Data rec) = Return (decoded, OriginDirectPUT, None)"
  using assms by (simp add: decodeRecord_def)

text \<open>
  Claim C1: a record that decodes to fewer than three bytes is returned as it is, as a
  direct-put record, and the decoded buffer is never indexed out of range. The code
  compares \<^verbatim>\<open>decodedRec[0]\<close>, \<^verbatim>\<open>decodedRec[1]\<close> and \<^verbatim>\<open>decodedRec[2]\<close> with no check of
  the length: the empty record, the record \<^verbatim>\<open>Hw==\<close> (the byte 1f) and the record
  \<^verbatim>\<open>H4s=\<close> (the bytes 1f 8b) all decode without error, and each makes decodeRecord
  panic with an index out of range.
\<close>

theorem decodeRecord_short_panics:
  "decodeRecord d [] = Panic (IndexOutOfRange 0 0)
   \<and> decodeRecord d ''Hw=='' = Panic (IndexOutOfRange 1 1)
   \<and> decodeRecord d ''H4s='' = Panic (IndexOutOfRange 2 2)"
  by (simp add: decodeRecord_def DecodeString_empty DecodeString_1f DecodeString_1f8b
        isGzipHeader_Nil isGzipHeader_1 isGzipHeader_2 gzipID1_def gzipID2_def)

text \<open>
  Claim C2: the gzip compression of any bytes \<open>b\<close>, encoded in base64, is decoded by
  decodeRecord to \<open>b\<close>, with origin cloudwatch-logs and no error. The compressed stream
  \<open>z\<close> is any stream that starts with the gzip member header for deflate and that
  the gzip reader reads back as \<open>b\<close> up to \<^verbatim>\<open>io.EOF\<close>.
\<close>

theorem decodeRecord_gzip_roundtrip:
  assumes "take 3 z = [gzipID1, gzipID2, gzipDeflate]"
    and "gzip_NewReader d (z, None) = Inr (b, None)"
  shows "decodeRecord d (EncodeToString z) = Return (b, OriginCloudwatchLogs, None)"
  using assms
  by (simp add: decodeRecord_def DecodeString_EncodeToString isGzipHeader_magic io_Copy_def)

text \<open>The round trip on the gzip stream of the bytes \<^verbatim>\<open>hi\<close>.\<close>

theorem decodeRecord_gzip_roundtrip_witness:
  "take 3 gz_hi = [gzipID1, gzipID2, gzipDeflate]
   \<and> gzip_NewReader example_deps (gz_hi, None) = Inr (''hi'', None)
   \<and> decodeRecord example_deps ''H4sIAAAAAAACA8vIBACsKpPYAgAAAA==''
       = Return (''hi'', OriginCloudwatchLogs, None)"
proof -
  have h1: "take 3 gz_hi = [gzipID1, gzipID2, gzipDeflate]"
    by (simp add: gz_hi_def gzipID1_def gzipID2_def gzipDeflate_def)
  have h2: "gzip_NewReader example_deps (gz_hi, None) = Inr (''hi'', None)"
    by (simp add: example_deps_def gunzip_table_def)
  from decodeRecord_gzip_roundtrip[OF h1 h2] h1 h2 show ?thesis
    by (simp add: EncodeToString_gz_hi)
qed

subsection \<open>Sending entries and answering\<close>

lemma sendLine_sent:
  "sent (sendLine d ls line st)
     = sent st @ [\<lparr>Labels = ls, EntryTimestamp = time_Now d (ticks st), Line = line\<rparr>]"
  by (simp add: sendLine_def Send_def)

lemma sendLine_frame:
  "ticks (sendLine d ls line st) = Suc (ticks st)"
  "errors (sendLine d ls line st) = errors st"
  "recordsReceived (sendLine d ls line st) = recordsReceived st"
  by (simp_all add: sendLine_def Send_def)

lemma sendEvents_sent:
  "sent (sendEvents d h b events st)
     = sent st @ map (\<lambda>(t, event). \<lparr>Labels = postProcessLabels d h (Builder_Labels b),
                                   EntryTimestamp = time_Now d t, Line = Message event\<rparr>)
                  (enumerate (ticks st) events)"
  by (induction events arbitrary: st) (simp_all add: sendLine_sent sendLine_frame)

lemma sendEvents_frame:
  "ticks (sendEvents d h b events st) = ticks st + length events"
  "errors (sendEvents d h b events st) = errors st"
  "recordsReceived (sendEvents d h b events st) = recordsReceived st"
  by (induction events arbitrary: st) (simp_all add: sendLine_frame)

lemma map_Line_enumerate:
  "map (Line \<circ> (\<lambda>(t, event). \<lparr>Labels = ls, EntryTimestamp = f t, Line = Message event\<rparr>))
       (enumerate n events) = map Message events"
  by (induction events arbitrary: n) simp_all

lemma map_labelled_enumerate:
  "map ((\<lambda>e. (Labels e, Line e)) \<circ> (\<lambda>(t, event). \<lparr>Labels = ls, EntryTimestamp = f t, Line = Message event\<rparr>))
       (enumerate n events) = map (\<lambda>event. (ls, Message event)) events"
  by (induction events arbitrary: n) simp_all

lemma enumerate_eq_Nil: "enumerate n xs = [] \<longleftrightarrow> xs = []"
  by (cases xs) simp_all

lemma sendAPIResponse_eq:
  "sendAPIResponse d firehoseID errMsg status st =
     (Responded \<lparr>StatusCode = status, ContentType = ''application/json'',
        ResponseBody = (if errMsg \<noteq> [] then errorResponse firehoseID (Unix (time_Now d (ticks st))) errMsg
                        else successResponse firehoseID (Unix (time_Now d (ticks st))))\<rparr>,
      st\<lparr>ticks := Suc (ticks st)\<rparr>)"
  by (simp add: sendAPIResponse_def Let_def)

lemma sendAPIResponse_sent: "sent (snd (sendAPIResponse d firehoseID errMsg status st)) = sent st"
  by (simp add: sendAPIResponse_eq)

lemma time_example: "time_Now example_deps n = clock n"
  by (simp add: example_deps_def)

subsection \<open>postProcessLabels\<close>

lemma fold_keepLabel_Some:
  assumes "fold (keepLabel d) lbs m n = Some v"
  shows "m n = Some v
     \<or> ((n, v) \<in> set lbs
        \<and> \<not> (HasPrefix n ''__'' \<and> n \<noteq> ReservedLabelTenantID d)
        \<and> LabelName_IsValid d n \<and> LabelValue_IsValid d v)"
  using assms
proof (induction lbs arbitrary: m)
  case Nil
  then show ?case by simp
next
  case (Cons lbl lbs)
  from Cons.prems have "fold (keepLabel d) lbs (keepLabel d lbl m) n = Some v" by simp
  from Cons.IH[OF this] show ?case
    by (cases lbl) (auto simp: keepLabel_def split: if_splits)
qed

lemma fold_keepLabel_kept:
  assumes "(n, v) \<in> set lbs" and "distinct (map fst lbs)"
    and "\<not> (HasPrefix n ''__'' \<and> n \<noteq> ReservedLabelTenantID d)"
    and "LabelName_IsValid d n" and "LabelValue_IsValid d v"
  shows "fold (keepLabel d) lbs m n = Some v"
  using assms(1,2)
proof (induction lbs arbitrary: m)
  case Nil
  then show ?case by simp
next
  case (Cons lbl lbs)
  show ?case
  proof (cases "lbl = (n, v)")
    case True
    with Cons.prems have notin: "n \<notin> fst ` set lbs" by auto
    have keep: "\<And>m'. m' n = Some v \<Longrightarrow> fold (keepLabel d) lbs m' n = Some v"
      using notin
    proof (induction lbs)
      case Nil
      then show ?case by simp
    next
      case (Cons a lbs)
      then have "keepLabel d a m' n = Some v"
        by (cases a) (auto simp: keepLabel_def)
      with Cons show ?case by simp
    qed
    have "keepLabel d lbl m n = Some v"
      using True assms(3-5) by (auto simp: keepLabel_def)
    then show ?thesis using keep by simp
  next
    case False
    with Cons.prems have "(n, v) \<in> set lbs" "distinct (map fst lbs)" by auto
    from Cons.IH[OF this] show ?thesis by simp
  qed
qed

text \<open>
  Claim C7: whatever label list post-processing is given, and whatever the relabel rules
  make of it, a label of the resulting set is a label of the relabelled list whose name
  does not start with \<^verbatim>\<open>__\<close> unless it is the tenant-id label, and whose name and value
  are valid for the label grammar; a relabelled label that starts with \<^verbatim>\<open>__\<close> and is not
  the tenant-id label, or whose name or value is invalid, is not in the resulting set.
\<close>

theorem postProcessLabels_invariant:
  "(postProcessLabels d h lbs n = Some v \<longrightarrow>
      (n, v) \<in> set (applyRelabelRules d h lbs)
      \<and> (HasPrefix n ''__'' \<longrightarrow> n = ReservedLabelTenantID d)
      \<and> LabelName_IsValid d n \<and> LabelValue_IsValid d v)
   \<and> ((n, v) \<in> set (applyRelabelRules d h lbs)
        \<and> ((HasPrefix n ''__'' \<and> n \<noteq> ReservedLabelTenantID d)
            \<or> \<not> LabelName_IsValid d n \<or> \<not> LabelValue_IsValid d v)
      \<longrightarrow> postProcessLabels d h lbs n \<noteq> Some v)"
  using fold_keepLabel_Some[of d "applyRelabelRules d h lbs" Map.empty n v]
  by (auto simp: postProcessLabels_def)

text \<open>Nothing else is removed: a label that meets the conditions is kept (names being unique).\<close>

lemma postProcessLabels_keeps:
  assumes "(n, v) \<in> set (applyRelabelRules d h lbs)"
    and "distinct (map fst (applyRelabelRules d h lbs))"
    and "HasPrefix n ''__'' \<longrightarrow> n = ReservedLabelTenantID d"
    and "LabelName_IsValid d n" and "LabelValue_IsValid d v"
  shows "postProcessLabels d h lbs n = Some v"
  using assms by (auto simp: postProcessLabels_def intro!: fold_keepLabel_kept)

lemma postProcessLabels_internal_dropped:
  assumes "HasPrefix n ''__''" and "n \<noteq> ReservedLabelTenantID d"
  shows "postProcessLabels d h lbs n = None"
proof (cases "postProcessLabels d h lbs n")
  case None
  then show ?thesis .
next
  case (Some v)
  with fold_keepLabel_Some[of d "applyRelabelRules d h lbs" Map.empty n v] assms
  show ?thesis by (simp add: postProcessLabels_def)
qed

text \<open>
  A run with a rule that renames the request-id label: the renamed label and the tenant-id
  label are kept; the internal source-ARN label, a label with an invalid name and a label
  whose value is not UTF-8 are removed.
\<close>

lemma relabelled_example:
  "applyRelabelRules example_deps relabel_request_id example_labels =
     [(''__aws_firehose_source_arn'', ''arn''), (''__tenant_id__'', ''t1''), (''bad-name'', ''x''),
      (''ok'', [CHR 0xFF]), (''request_id'', ''req-id'')]"
  by (simp add: applyRelabelRules_def relabel_request_id_def example_labels_def example_deps_def
        apply_rules_def rename_rule_def)

lemma postProcessed_example:
  "postProcessLabels example_deps relabel_request_id example_labels
     = [''__tenant_id__'' \<mapsto> ''t1'', ''request_id'' \<mapsto> ''req-id'']"
  unfolding postProcessLabels_def relabelled_example
  by (simp add: example_deps_def keepLabel_def HasPrefix_def name_IsValid_def is_letter_def
        is_digit_def)

theorem postProcessLabels_invariant_witness:
  "postProcessLabels example_deps relabel_request_id example_labels ''request_id'' = Some ''req-id''
   \<and> (''request_id'', ''req-id'') \<in> set (applyRelabelRules example_deps relabel_request_id example_labels)
   \<and> \<not> HasPrefix ''request_id'' ''__''
   \<and> LabelName_IsValid example_deps ''request_id'' \<and> LabelValue_IsValid example_deps ''req-id''
   \<and> (''__aws_firehose_source_arn'', ''arn'')
        \<in> set (applyRelabelRules example_deps relabel_request_id example_labels)
   \<and> HasPrefix ''__aws_firehose_source_arn'' ''__''
   \<and> ''__aws_firehose_source_arn'' \<noteq> ReservedLabelTenantID example_deps
   \<and> postProcessLabels example_deps relabel_request_id example_labels ''__aws_firehose_source_arn''
        \<noteq> Some ''arn''
   \<and> (''bad-name'', ''x'') \<in> set (applyRelabelRules example_deps relabel_request_id example_labels)
   \<and> \<not> LabelName_IsValid example_deps ''bad-name''
   \<and> postProcessLabels example_deps relabel_request_id example_labels ''bad-name'' \<noteq> Some ''x''
   \<and> (''ok'', [CHR 0xFF]) \<in> set (applyRelabelRules example_deps relabel_request_id example_labels)
   \<and> \<not> LabelValue_IsValid example_deps [CHR 0xFF]
   \<and> postProcessLabels example_deps relabel_request_id example_labels ''ok'' \<noteq> Some [CHR 0xFF]"
proof -
  have kept: "postProcessLabels example_deps relabel_request_id example_labels ''request_id''
      = Some ''req-id''"
    by (simp add: postProcessed_example)
  have internal: "HasPrefix ''__aws_firehose_source_arn'' ''__''"
    "''__aws_firehose_source_arn'' \<noteq> ReservedLabelTenantID example_deps"
    by (simp_all add: HasPrefix_def example_deps_def)
  have plain: "\<not> HasPrefix ''request_id'' ''__''"
    by (simp add: HasPrefix_def)
  have bad_name: "\<not> LabelName_IsValid example_deps ''bad-name''"
    by (simp add: example_deps_def name_IsValid_def is_letter_def is_digit_def)
  have bad_value: "\<not> LabelValue_IsValid example_deps [CHR 0xFF]"
    by (simp add: example_deps_def)
  have mem: "(''__aws_firehose_source_arn'', ''arn'')
        \<in> set (applyRelabelRules example_deps relabel_request_id example_labels)"
    "(''bad-name'', ''x'') \<in> set (applyRelabelRules example_deps relabel_request_id example_labels)"
    "(''ok'', [CHR 0xFF]) \<in> set (applyRelabelRules example_deps relabel_request_id example_labels)"
    by (simp_all add: relabelled_example)
  from kept plain internal bad_name bad_value mem
    postProcessLabels_invariant[of example_deps relabel_request_id example_labels
      "''request_id''" "''req-id''"]
    postProcessLabels_invariant[of example_deps relabel_request_id example_labels
      "''__aws_firehose_source_arn''" "''arn''"]
    postProcessLabels_invariant[of example_deps relabel_request_id example_labels
      "''bad-name''" "''x''"]
    postProcessLabels_invariant[of example_deps relabel_request_id example_labels
      "''ok''" "[CHR 0xFF]"]
  show ?thesis by blast
qed

subsection \<open>handleCloudwatchLogsRecord\<close>

text \<open>
  Claim C9: for a CloudWatch record that parses, the handler forwards one entry per
  element of \<^verbatim>\<open>logEvents\<close>, in their order, each with the message of its event as line
  text, and returns no error; the message type plays no part.
\<close>

theorem handleCloudwatchLogsRecord_forwards_every_event:
  assumes "json_Unmarshal d data = Inr cwRecord"
  shows "fst (handleCloudwatchLogsRecord d h data commonLabels st) = None
     \<and> sent (snd (handleCloudwatchLogsRecord d h data commonLabels st))
         = sent st @ map (\<lambda>(t, event).
                       \<lparr>Labels = postProcessLabels d h
                                  (Builder_Labels (cwLogsLabels cwRecord commonLabels)),
                        EntryTimestamp = time_Now d t, Line = Message event\<rparr>)
                     (enumerate (ticks st) (LogEvents cwRecord))"
  using assms by (simp add: handleCloudwatchLogsRecord_def sendEvents_sent)

lemma unmarshal_data_message:
  "json_Unmarshal example_deps data_message_json = Inr data_message"
  by (simp add: example_deps_def unmarshal_table_def)

lemma unmarshal_control:
  "json_Unmarshal example_deps control_message_json = Inr control_message"
  by (simp add: example_deps_def unmarshal_table_def control_message_json_def data_message_json_def)

text \<open>A data message with two events gives two entries.\<close>

theorem handleCloudwatchLogsRecord_forwards_every_event_witness:
  "json_Unmarshal example_deps data_message_json = Inr data_message
   \<and> fst (handleCloudwatchLogsRecord example_deps no_rules data_message_json [] init) = None
   \<and> map Line (sent (snd (handleCloudwatchLogsRecord example_deps no_rules data_message_json [] init)))
       = [''m1'', ''m2'']"
proof -
  have u: "json_Unmarshal example_deps data_message_json = Inr data_message"
    by (simp add: example_deps_def unmarshal_table_def)
  from handleCloudwatchLogsRecord_forwards_every_event[OF u, of no_rules "[]" init] u
  show ?thesis
    by (simp add: map_Line_enumerate) (simp add: data_message_def init_def)
qed

text \<open>
  Claim C5 says that an envelope of message type \<^verbatim>\<open>CONTROL_MESSAGE\<close> produces no entry.
  The handler never looks at the message type: the control message that CloudWatch Logs
  sends to check the destination carries one log event, and that event is forwarded.
\<close>

theorem control_message_counterexample:
  "json_Unmarshal example_deps control_message_json = Inr control_message
   \<and> MessageType control_message = ''CONTROL_MESSAGE''
   \<and> map Line (sent (snd (handleCloudwatchLogsRecord example_deps no_rules control_message_json [] init)))
       = [''CWL CONTROL MESSAGE: Checking health of destination Firehose.'']"
  by (simp add: unmarshal_control handleCloudwatchLogsRecord_def sendEvents_sent map_Line_enumerate)
     (simp add: control_message_def init_def)

text \<open>
  Claim C5, amended: for an envelope of message type \<^verbatim>\<open>CONTROL_MESSAGE\<close> that parses,
  handling the record returns no error and forwards one entry per element of
  \<^verbatim>\<open>logEvents\<close>, with the event's message as line text; no entry is forwarded exactly
  when \<^verbatim>\<open>logEvents\<close> is empty.
\<close>

theorem control_message_forwarded:
  assumes "json_Unmarshal d data = Inr cwRecord"
    and "MessageType cwRecord = ''CONTROL_MESSAGE''"
  shows "fst (handleCloudwatchLogsRecord d h data commonLabels st) = None
     \<and> map Line (sent (snd (handleCloudwatchLogsRecord d h data commonLabels st)))
         = map Line (sent st) @ map Message (LogEvents cwRecord)
     \<and> (sent (snd (handleCloudwatchLogsRecord d h data commonLabels st)) = sent st
          \<longleftrightarrow> LogEvents cwRecord = [])"
  using assms(1)
  by (simp add: handleCloudwatchLogsRecord_def sendEvents_sent map_Line_enumerate
        enumerate_eq_Nil)

text \<open>The amended claim on the control message of CloudWatch Logs.\<close>

theorem control_message_forwarded_witness:
  "json_Unmarshal example_deps control_message_json = Inr control_message
   \<and> MessageType control_message = ''CONTROL_MESSAGE''
   \<and> fst (handleCloudwatchLogsRecord example_deps no_rules control_message_json [] init) = None
   \<and> map Line (sent (snd (handleCloudwatchLogsRecord example_deps no_rules control_message_json [] init)))
       = map Message (LogEvents control_message)
   \<and> sent (snd (handleCloudwatchLogsRecord example_deps no_rules control_message_json [] init)) \<noteq> []"
proof -
  have m: "MessageType control_message = ''CONTROL_MESSAGE''"
    by (simp add: control_message_def)
  from control_message_forwarded[OF unmarshal_control m, of no_rules "[]" init] m unmarshal_control
  show ?thesis
    by (simp add: init_def) (simp add: control_message_def)
qed

subsection \<open>The loop over the records\<close>

lemma recordsLoop_append:
  "recordsLoop d h requestID commonLabels (pre @ recs) st =
     (case recordsLoop d h requestID commonLabels pre st of
        (Some out, st') \<Rightarrow> (Some out, st')
      | (None, st') \<Rightarrow> recordsLoop d h requestID commonLabels recs st')"
  by (induction pre arbitrary: st)
     (auto simp: sendAPIResponse_eq split: result.splits prod.splits option.splits)

lemma recordsLoop_decode_error:
  assumes "DecodeString (Data rec) = Inl e"
  shows "recordsLoop d h requestID commonLabels (rec # recs) st =
     (Some (Responded \<lparr>StatusCode = 400, ContentType = ''application/json'',
        ResponseBody = errorResponse requestID (Unix (time_Now d (ticks st))) ''failed to decode record''\<rparr>),
      st\<lparr>errors := errors st @ [''decode''], ticks := Suc (ticks st)\<rparr>)"
  using assms
  by (simp add: decodeRecord_def sendAPIResponse_eq incErrors_def StatusBadRequest_def)

text \<open>
  Abort on the first error: when the records before it are processed to the end (none
  fails, none panics), a record that fails to base64-decode ends the request with a 400
  reply that carries the requestId, and nothing of the records after it is forwarded.
\<close>

lemma recordsLoop_aborts_on_decode_error:
  assumes "recordsLoop d h requestID commonLabels pre st = (None, st1)"
    and "DecodeString (Data rec) = Inl e"
  shows "recordsLoop d h requestID commonLabels (pre @ rec # post) st =
     (Some (Responded \<lparr>StatusCode = 400, ContentType = ''application/json'',
        ResponseBody = errorResponse requestID (Unix (time_Now d (ticks st1))) ''failed to decode record''\<rparr>),
      st1\<lparr>errors := errors st1 @ [''decode''], ticks := Suc (ticks st1)\<rparr>)"
  using assms by (simp add: recordsLoop_append recordsLoop_decode_error del: recordsLoop.simps)

lemma recordsLoop_direct_put:
  assumes "decodeRecord d (Data rec) = Return (decoded, OriginDirectPUT, None)"
  shows "recordsLoop d h requestID commonLabels (rec # recs) st =
     recordsLoop d h requestID commonLabels recs
       (st\<lparr>recordsReceived := recordsReceived st @ [''direct-put''],
           ticks := Suc (ticks st),
           sent := sent st @ [\<lparr>Labels = postProcessLabels d h (Builder_Labels commonLabels),
                               EntryTimestamp = time_Now d (ticks st), Line = decoded\<rparr>]\<rparr>)"
  using assms
  by (simp add: handleRecord_def incRecordsReceived_def sendLine_def Send_def)

lemma recordsLoop_responses:
  assumes "recordsLoop d h requestID commonLabels recs st = (Some (Responded resp), st')"
  shows "StatusCode resp = 400 \<and> ContentType resp = ''application/json''
     \<and> (\<exists>ts. ResponseBody resp = errorResponse requestID ts ''failed to decode record''
            \<or> ResponseBody resp = errorResponse requestID ts ''failed to handle cloudwatch record'')"
  using assms
proof (induction recs arbitrary: st)
  case Nil
  then show ?case by simp
next
  case (Cons rec recs)
  then show ?case
    by (auto simp: sendAPIResponse_eq StatusBadRequest_def
        split: result.splits prod.splits option.splits)
qed

subsection \<open>The labels of a batch\<close>

lemma base_Set: "base (Set b n v) = base b"
  by (simp add: Set_def Del_def)

lemma base_cwLogsLabels: "base (cwLogsLabels cwRecord commonLabels) = commonLabels"
  by (simp add: cwLogsLabels_def Let_def base_Set NewBuilder_def)

lemma names_add_Set: "set (map fst (add (Set b n v))) \<subseteq> insert n (set (map fst (add b)))"
  by (auto simp: Set_def Del_def)

lemma Set_add_mem: "v \<noteq> [] \<Longrightarrow> (n, v) \<in> set (add (Set b n v))"
  by (force simp: Set_def)

lemma Set_add_other: "n' \<noteq> n \<Longrightarrow> (n, v) \<in> set (add b) \<Longrightarrow> (n, v) \<in> set (add (Set b n' v'))"
  by (force simp: Set_def Del_def)

lemma set_Builder_Labels_no_base: "base b = [] \<Longrightarrow> set (Builder_Labels b) = set (add b)"
  by (auto simp: Builder_Labels_def Let_def)

lemma base_buildCommonLabels: "base (buildCommonLabels d hdr) = []"
  by (simp add: buildCommonLabels_def Let_def base_Set NewBuilder_def)

lemma names_buildCommonLabels:
  "set (map fst (Builder_Labels (buildCommonLabels d hdr)))
     \<subseteq> {''__aws_firehose_request_id'', ''__aws_firehose_source_arn'', ReservedLabelTenantID d}"
proof -
  let ?b1 = "Set (NewBuilder []) ''__aws_firehose_request_id'' (Header_Get hdr ''X-Amz-Firehose-Request-Id'')"
  let ?b2 = "Set ?b1 ''__aws_firehose_source_arn'' (Header_Get hdr ''X-Amz-Firehose-Source-Arn'')"
  have 1: "set (map fst (add ?b1)) \<subseteq> {''__aws_firehose_request_id''}"
    using names_add_Set[of "NewBuilder []"] by (simp add: NewBuilder_def)
  have 2: "set (map fst (add ?b2)) \<subseteq> {''__aws_firehose_request_id'', ''__aws_firehose_source_arn''}"
    using names_add_Set[of ?b1 "''__aws_firehose_source_arn''"] 1 by blast
  have 3: "set (map fst (add (Set ?b2 (ReservedLabelTenantID d) v)))
      \<subseteq> {''__aws_firehose_request_id'', ''__aws_firehose_source_arn'', ReservedLabelTenantID d}" for v
    using names_add_Set[of ?b2 "ReservedLabelTenantID d" v] 2 by blast
  have "set (map fst (add (buildCommonLabels d hdr)))
      \<subseteq> {''__aws_firehose_request_id'', ''__aws_firehose_source_arn'', ReservedLabelTenantID d}"
    using 2 3 by (auto simp: buildCommonLabels_def Let_def)
  then show ?thesis
    by (simp add: set_Builder_Labels_no_base base_buildCommonLabels)
qed

lemma request_id_in_buildCommonLabels:
  assumes "Header_Get hdr ''X-Amz-Firehose-Request-Id'' \<noteq> []"
    and "ReservedLabelTenantID d \<noteq> ''__aws_firehose_request_id''"
  shows "(''__aws_firehose_request_id'', Header_Get hdr ''X-Amz-Firehose-Request-Id'')
           \<in> set (Builder_Labels (buildCommonLabels d hdr))"
  using assms
  by (simp add: set_Builder_Labels_no_base base_buildCommonLabels)
     (simp add: buildCommonLabels_def Let_def Set_add_mem Set_add_other)

lemma source_arn_in_buildCommonLabels:
  assumes "Header_Get hdr ''X-Amz-Firehose-Source-Arn'' \<noteq> []"
    and "ReservedLabelTenantID d \<noteq> ''__aws_firehose_source_arn''"
  shows "(''__aws_firehose_source_arn'', Header_Get hdr ''X-Amz-Firehose-Source-Arn'')
           \<in> set (Builder_Labels (buildCommonLabels d hdr))"
  using assms
  by (simp add: set_Builder_Labels_no_base base_buildCommonLabels)
     (simp add: buildCommonLabels_def Let_def Set_add_mem Set_add_other)

lemma postProcessLabels_common_no_rules:
  assumes "relabelRules h = []" and "n \<noteq> ReservedLabelTenantID d"
  shows "postProcessLabels d h (Builder_Labels (buildCommonLabels d hdr)) n = None"
proof (cases "postProcessLabels d h (Builder_Labels (buildCommonLabels d hdr)) n")
  case None
  then show ?thesis .
next
  case (Some v)
  with fold_keepLabel_Some[of d "Builder_Labels (buildCommonLabels d hdr)" Map.empty n v] assms(1)
  have in_common: "(n, v) \<in> set (Builder_Labels (buildCommonLabels d hdr))"
    and ok: "\<not> (HasPrefix n ''__'' \<and> n \<noteq> ReservedLabelTenantID d)"
    by (simp_all add: postProcessLabels_def applyRelabelRules_def)
  from in_common have "n \<in> set (map fst (Builder_Labels (buildCommonLabels d hdr)))"
    by force
  with names_buildCommonLabels[of d hdr] assms(2)
  have "n = ''__aws_firehose_request_id'' \<or> n = ''__aws_firehose_source_arn''" by blast
  then have "HasPrefix n ''__''" by (auto simp: HasPrefix_def)
  with ok assms(2) show ?thesis by simp
qed

text \<open>The builders of the concrete runs.\<close>

lemma Set_fresh:
  "v \<noteq> [] \<Longrightarrow> n \<notin> set (map fst as) \<Longrightarrow>
     Set \<lparr>base = bs, del = ds, add = as\<rparr> n v = \<lparr>base = bs, del = ds, add = as @ [(n, v)]\<rparr>"
  by (simp add: Set_def)

lemma Set_empty_value:
  "Set \<lparr>base = bs, del = ds, add = as\<rparr> n [] =
     \<lparr>base = bs, del = ds @ [n], add = filter (\<lambda>a. fst a \<noteq> n) as\<rparr>"
  by (simp add: Set_def Del_def)

lemma common_labels_example:
  "Builder_Labels (buildCommonLabels example_deps firehose_headers)
     = [(''__aws_firehose_request_id'', ''req-id''),
        (''__aws_firehose_source_arn'', ''arn:aws:firehose:us-east-2:123:deliverystream/s'')]"
  by (simp add: buildCommonLabels_def Let_def Set_def Del_def NewBuilder_def Builder_Labels_def
        Header_Get_def firehose_headers_def)

lemma postProcess_common_example:
  "postProcessLabels example_deps no_rules
      (Builder_Labels (buildCommonLabels example_deps firehose_headers)) = Map.empty"
  by (simp add: common_labels_example postProcessLabels_def applyRelabelRules_def no_rules_def)
     (simp add: keepLabel_def HasPrefix_def example_deps_def)

lemma cw_builder:
  "cwLogsLabels data_message
     [(''__aws_firehose_request_id'', ''req-id''),
      (''__aws_firehose_source_arn'', ''arn:aws:firehose:us-east-2:123:deliverystream/s'')]
   = \<lparr>base = [(''__aws_firehose_request_id'', ''req-id''),
               (''__aws_firehose_source_arn'', ''arn:aws:firehose:us-east-2:123:deliverystream/s'')],
      del = [''__aws_cw_log_stream'', ''__aws_cw_matched_filters''],
      add = [(''__aws_owner'', ''1''), (''__aws_cw_log_group'', ''lg''),
             (''__aws_cw_msg_type'', ''DATA_MESSAGE'')]\<rparr>"
  by (simp add: cwLogsLabels_def Let_def NewBuilder_def data_message_def Set_fresh Set_empty_value)

lemma data_message_labels:
  "Builder_Labels (cwLogsLabels data_message (Builder_Labels (buildCommonLabels example_deps firehose_headers)))
     = [(''__aws_cw_log_group'', ''lg''), (''__aws_cw_msg_type'', ''DATA_MESSAGE''),
        (''__aws_firehose_request_id'', ''req-id''),
        (''__aws_firehose_source_arn'', ''arn:aws:firehose:us-east-2:123:deliverystream/s''),
        (''__aws_owner'', ''1'')]"
  unfolding common_labels_example cw_builder by (simp add: Builder_Labels_def)

lemma data_message_final_labels:
  "postProcessLabels example_deps log_group_rule
     (Builder_Labels (cwLogsLabels data_message (Builder_Labels (buildCommonLabels example_deps firehose_headers))))
     = [''log_group'' \<mapsto> ''lg'']"
  by (simp add: data_message_labels postProcessLabels_def applyRelabelRules_def log_group_rule_def)
     (simp add: example_deps_def apply_rules_def rename_rule_def keepLabel_def HasPrefix_def
        name_IsValid_def is_letter_def is_digit_def)

lemma direct_put_final_labels:
  "postProcessLabels example_deps log_group_rule
     (Builder_Labels (buildCommonLabels example_deps firehose_headers)) = Map.empty"
  by (simp add: common_labels_example postProcessLabels_def applyRelabelRules_def log_group_rule_def)
     (simp add: example_deps_def apply_rules_def rename_rule_def keepLabel_def HasPrefix_def)

lemma data_message_events:
  "LogEvents data_message = [\<lparr>ID = [], EventTimestamp = 0, Message = ''m1''\<rparr>,
                             \<lparr>ID = [], EventTimestamp = 0, Message = ''m2''\<rparr>]"
  by (simp add: data_message_def)

lemma gunzip_data_message:
  "gzip_NewReader example_deps (gz_data_message, None) = Inr (data_message_json, None)"
  by (simp add: example_deps_def gunzip_table_def) (simp add: gz_data_message_def gz_hi_def)

lemma decodeRecord_data_message:
  "decodeRecord example_deps data_message_record = Return (data_message_json, OriginCloudwatchLogs, None)"
  by (simp add: decodeRecord_def DecodeString_data_message_record isGzipHeader_data_message
        gunzip_data_message io_Copy_def)

text \<open>
  Claim C6 says that the final label set of a direct-put entry includes the firehose
  request-id and source-ARN labels. Both are set under names that start with \<^verbatim>\<open>__\<close>, and
  post-processing drops such labels: with both headers present and no relabel rule, the
  entry forwarded for the record \<^verbatim>\<open>hello world\<close> has an empty label set.
\<close>

theorem direct_put_labels_counterexample:
  "Header_Get firehose_headers ''X-Amz-Firehose-Request-Id'' = ''req-id''
   \<and> Header_Get firehose_headers ''X-Amz-Firehose-Source-Arn''
       = ''arn:aws:firehose:us-east-2:123:deliverystream/s''
   \<and> sent (snd (ServeHTTP example_deps no_rules \<lparr>Header = firehose_headers, Body = body_hello\<rparr> init))
       = [\<lparr>Labels = Map.empty, EntryTimestamp = clock 0, Line = ''hello world''\<rparr>]"
proof -
  have r: "bodyReader example_deps \<lparr>Header = firehose_headers, Body = body_hello\<rparr> = Inr (body_hello, None)"
    by (simp add: bodyReader_def Header_Get_def firehose_headers_def)
  have j: "json_Decode example_deps (body_hello, None)
       = Inr \<lparr>RequestID = ''req-3'', Timestamp = 1700000000000,
              Records = [\<lparr>Data = ''aGVsbG8gd29ybGQ=''\<rparr>]\<rparr>"
    by (simp add: example_deps_def decode_table_def body_hello_def body_empty_def body_short_def)
  have dr: "decodeRecord example_deps (Data \<lparr>Data = ''aGVsbG8gd29ybGQ=''\<rparr>)
       = Return (''hello world'', OriginDirectPUT, None)"
    by (rule decodeRecord_direct_put) (simp_all add: DecodeString_hello isGzipHeader_hello)
  have t: "time_Now example_deps 0 = clock 0"
    by (simp add: example_deps_def)
  have s: "sent (snd (ServeHTTP example_deps no_rules \<lparr>Header = firehose_headers, Body = body_hello\<rparr> init))
       = [\<lparr>Labels = Map.empty, EntryTimestamp = clock 0, Line = ''hello world''\<rparr>]"
    by (simp add: ServeHTTP_def r j recordsLoop_direct_put[OF dr] postProcess_common_example
          sendAPIResponse_eq del: recordsLoop.simps)
       (simp add: init_def t sendAPIResponse_eq)
  show ?thesis
    by (simp add: s) (simp add: Header_Get_def firehose_headers_def)
qed

text \<open>
  Claim C6, amended: for every direct-put record, one entry is forwarded whose line text
  is the base64-decoded record, byte for byte, and whose label set is the post-processing
  of the common labels alone. The common labels are named by the firehose request-id
  label, the source-ARN label and the tenant-id label only (so no CloudWatch-specific
  label is among them), and hold the request id and source ARN of the headers when these
  are not empty. The final label set holds no label whose name starts with \<^verbatim>\<open>__\<close> other
  than the tenant-id label: no CloudWatch-specific label and, under their own names,
  neither the request-id nor the source-ARN label; with no relabel rule it holds nothing
  but the tenant-id label.
\<close>

theorem direct_put_entry:
  assumes "DecodeString (Data rec) = Inr decoded" and "isGzipHeader decoded = Return False"
  shows "recordsLoop d h requestID (buildCommonLabels d hdr) (rec # recs) st =
           recordsLoop d h requestID (buildCommonLabels d hdr) recs
             (st\<lparr>recordsReceived := recordsReceived st @ [''direct-put''],
                 ticks := Suc (ticks st),
                 sent := sent st @
                   [\<lparr>Labels = postProcessLabels d h (Builder_Labels (buildCommonLabels d hdr)),
                     EntryTimestamp = time_Now d (ticks st), Line = decoded\<rparr>]\<rparr>)
     \<and> set (map fst (Builder_Labels (buildCommonLabels d hdr)))
         \<subseteq> {''__aws_firehose_request_id'', ''__aws_firehose_source_arn'', ReservedLabelTenantID d}
     \<and> (Header_Get hdr ''X-Amz-Firehose-Request-Id'' \<noteq> []
          \<and> ReservedLabelTenantID d \<noteq> ''__aws_firehose_request_id''
        \<longrightarrow> (''__aws_firehose_request_id'', Header_Get hdr ''X-Amz-Firehose-Request-Id'')
              \<in> set (Builder_Labels (buildCommonLabels d hdr)))
     \<and> (Header_Get hdr ''X-Amz-Firehose-Source-Arn'' \<noteq> []
          \<and> ReservedLabelTenantID d \<noteq> ''__aws_firehose_source_arn''
        \<longrightarrow> (''__aws_firehose_source_arn'', Header_Get hdr ''X-Amz-Firehose-Source-Arn'')
              \<in> set (Builder_Labels (buildCommonLabels d hdr)))
     \<and> (HasPrefix n ''__'' \<and> n \<noteq> ReservedLabelTenantID d
        \<longrightarrow> postProcessLabels d h (Builder_Labels (buildCommonLabels d hdr)) n = None)
     \<and> (relabelRules h = [] \<and> n \<noteq> ReservedLabelTenantID d
        \<longrightarrow> postProcessLabels d h (Builder_Labels (buildCommonLabels d hdr)) n = None)"
proof (intro conjI impI)
  show "recordsLoop d h requestID (buildCommonLabels d hdr) (rec # recs) st =
           recordsLoop d h requestID (buildCommonLabels d hdr) recs
             (st\<lparr>recordsReceived := recordsReceived st @ [''direct-put''],
                 ticks := Suc (ticks st),
                 sent := sent st @
                   [\<lparr>Labels = postProcessLabels d h (Builder_Labels (buildCommonLabels d hdr)),
                     EntryTimestamp = time_Now d (ticks st), Line = decoded\<rparr>]\<rparr>)"
    by (rule recordsLoop_direct_put[OF decodeRecord_direct_put[OF assms]])
  show "set (map fst (Builder_Labels (buildCommonLabels d hdr)))
         \<subseteq> {''__aws_firehose_request_id'', ''__aws_firehose_source_arn'', ReservedLabelTenantID d}"
    by (rule names_buildCommonLabels)
next
  assume "Header_Get hdr ''X-Amz-Firehose-Request-Id'' \<noteq> []
          \<and> ReservedLabelTenantID d \<noteq> ''__aws_firehose_request_id''"
  then show "(''__aws_firehose_request_id'', Header_Get hdr ''X-Amz-Firehose-Request-Id'')
              \<in> set (Builder_Labels (buildCommonLabels d hdr))"
    by (simp add: request_id_in_buildCommonLabels)
next
  assume "Header_Get hdr ''X-Amz-Firehose-Source-Arn'' \<noteq> []
          \<and> ReservedLabelTenantID d \<noteq> ''__aws_firehose_source_arn''"
  then show "(''__aws_firehose_source_arn'', Header_Get hdr ''X-Amz-Firehose-Source-Arn'')
              \<in> set (Builder_Labels (buildCommonLabels d hdr))"
    by (simp add: source_arn_in_buildCommonLabels)
next
  assume "HasPrefix n ''__'' \<and> n \<noteq> ReservedLabelTenantID d"
  then show "postProcessLabels d h (Builder_Labels (buildCommonLabels d hdr)) n = None"
    by (simp add: postProcessLabels_internal_dropped)
next
  assume "relabelRules h = [] \<and> n \<noteq> ReservedLabelTenantID d"
  then show "postProcessLabels d h (Builder_Labels (buildCommonLabels d hdr)) n = None"
    by (simp add: postProcessLabels_common_no_rules)
qed

text \<open>The amended claim on the record \<^verbatim>\<open>hello world\<close>.\<close>

theorem direct_put_entry_witness:
  "DecodeString (Data \<lparr>Data = ''aGVsbG8gd29ybGQ=''\<rparr>) = Inr ''hello world''
   \<and> isGzipHeader ''hello world'' = Return False
   \<and> recordsLoop example_deps no_rules ''req-3'' (buildCommonLabels example_deps firehose_headers)
        [\<lparr>Data = ''aGVsbG8gd29ybGQ=''\<rparr>] init
       = (None, \<lparr>sent = [\<lparr>Labels = Map.empty, EntryTimestamp = clock 0, Line = ''hello world''\<rparr>],
                 errors = [], recordsReceived = [''direct-put''], ticks = 1\<rparr>)
   \<and> (''__aws_firehose_request_id'', ''req-id'')
        \<in> set (Builder_Labels (buildCommonLabels example_deps firehose_headers))"
proof -
  have 1: "DecodeString (Data \<lparr>Data = ''aGVsbG8gd29ybGQ=''\<rparr>) = Inr ''hello world''"
    by (simp add: DecodeString_hello)
  have t: "time_Now example_deps 0 = clock 0"
    by (simp add: example_deps_def)
  have hd: "Header_Get firehose_headers ''X-Amz-Firehose-Request-Id'' = ''req-id''"
    by (simp add: Header_Get_def firehose_headers_def)
  have tn: "ReservedLabelTenantID example_deps = ''__tenant_id__''"
    by (simp add: example_deps_def)
  from direct_put_entry[OF 1 isGzipHeader_hello, of example_deps no_rules "''req-3''"
      firehose_headers "[]" init "''__aws_firehose_request_id''"] 1 isGzipHeader_hello
  show ?thesis
    by (simp add: postProcess_common_example hd tn del: recordsLoop.simps)
       (simp add: init_def t)
qed

text \<open>What one record adds to the entries sent does not depend on the state it starts from.\<close>

lemma single_record_sent:
  "map (\<lambda>e. (Labels e, Line e)) (sent (snd (recordsLoop d h requestID commonLabels [rec] st)))
     = map (\<lambda>e. (Labels e, Line e)) (sent st)
       @ map (\<lambda>e. (Labels e, Line e)) (sent (snd (recordsLoop d h requestID commonLabels [rec] init)))"
  by (auto simp: sendAPIResponse_eq handleRecord_def handleCloudwatchLogsRecord_def
        incErrors_def incRecordsReceived_def sendLine_sent sendEvents_sent map_labelled_enumerate
        init_def
      split: result.splits prod.splits option.splits RecordOrigin.splits sum.splits)

text \<open>
  Claim C10: a CloudWatch record extends a new builder whose base is the common labels,
  and leaves the common labels as they were: after any records processed to the end,
  CloudWatch records among them, the next record adds the entries, labels and lines, that
  it adds when it is the first record of the batch.
\<close>

theorem common_labels_unchanged:
  assumes "recordsLoop d h requestID commonLabels pre st = (None, st1)"
  shows "map (\<lambda>e. (Labels e, Line e))
           (sent (snd (recordsLoop d h requestID commonLabels (pre @ [rec]) st)))
         = map (\<lambda>e. (Labels e, Line e)) (sent st1)
           @ map (\<lambda>e. (Labels e, Line e))
               (sent (snd (recordsLoop d h requestID commonLabels [rec] init)))
     \<and> base (cwLogsLabels cwRecord (Builder_Labels commonLabels)) = Builder_Labels commonLabels"
  using assms single_record_sent[of d h requestID commonLabels rec st1]
  by (simp add: recordsLoop_append base_cwLogsLabels del: recordsLoop.simps)

text \<open>
  A CloudWatch record followed by a direct-put record, with a rule that keeps the log
  group: the entries of the first carry the log group, the entry of the second does not.
\<close>

lemma cloudwatch_record_alone:
  "recordsLoop example_deps log_group_rule ''req-4'' (buildCommonLabels example_deps firehose_headers)
      [\<lparr>Data = data_message_record\<rparr>] init
   = (None, \<lparr>sent = [\<lparr>Labels = [''log_group'' \<mapsto> ''lg''], EntryTimestamp = clock 0, Line = ''m1''\<rparr>,
                      \<lparr>Labels = [''log_group'' \<mapsto> ''lg''], EntryTimestamp = clock 1, Line = ''m2''\<rparr>],
             errors = [], recordsReceived = [''cloudwatch-logs''], ticks = 2\<rparr>)"
  by (simp add: decodeRecord_data_message handleRecord_def handleCloudwatchLogsRecord_def
        unmarshal_data_message data_message_final_labels time_example incRecordsReceived_def
        data_message_events sendLine_def Send_def init_def)

lemma direct_put_record_alone:
  "recordsLoop example_deps log_group_rule ''req-4'' (buildCommonLabels example_deps firehose_headers)
      [\<lparr>Data = ''aGVsbG8gd29ybGQ=''\<rparr>] init
   = (None, \<lparr>sent = [\<lparr>Labels = Map.empty, EntryTimestamp = clock 0, Line = ''hello world''\<rparr>],
             errors = [], recordsReceived = [''direct-put''], ticks = 1\<rparr>)"
proof -
  have dr: "decodeRecord example_deps (Data \<lparr>Data = ''aGVsbG8gd29ybGQ=''\<rparr>)
       = Return (''hello world'', OriginDirectPUT, None)"
    by (rule decodeRecord_direct_put) (simp_all add: DecodeString_hello isGzipHeader_hello)
  show ?thesis
    by (simp add: recordsLoop_direct_put[OF dr] direct_put_final_labels time_example
          del: recordsLoop.simps)
       (simp add: init_def)
qed

theorem common_labels_unchanged_witness:
  "recordsLoop example_deps log_group_rule ''req-4'' (buildCommonLabels example_deps firehose_headers)
      [\<lparr>Data = data_message_record\<rparr>] init
   = (None, \<lparr>sent = [\<lparr>Labels = [''log_group'' \<mapsto> ''lg''], EntryTimestamp = clock 0, Line = ''m1''\<rparr>,
                      \<lparr>Labels = [''log_group'' \<mapsto> ''lg''], EntryTimestamp = clock 1, Line = ''m2''\<rparr>],
             errors = [], recordsReceived = [''cloudwatch-logs''], ticks = 2\<rparr>)
   \<and> map (\<lambda>e. (Labels e, Line e))
        (sent (snd (recordsLoop example_deps log_group_rule ''req-4''
                      (buildCommonLabels example_deps firehose_headers)
                      ([\<lparr>Data = data_message_record\<rparr>] @ [\<lparr>Data = ''aGVsbG8gd29ybGQ=''\<rparr>]) init)))
      = [([''log_group'' \<mapsto> ''lg''], ''m1''), ([''log_group'' \<mapsto> ''lg''], ''m2''),
         (Map.empty, ''hello world'')]"
  using common_labels_unchanged[OF cloudwatch_record_alone, of "\<lparr>Data = ''aGVsbG8gd29ybGQ=''\<rparr>"]
    cloudwatch_record_alone
  by (simp add: direct_put_record_alone del: recordsLoop.simps)

subsection \<open>ServeHTTP\<close>

lemma bodyReader_plain:
  "Header_Get (Header req) ''Content-Encoding'' \<noteq> ''gzip'' \<Longrightarrow> bodyReader d req = Inr (Body req, None)"
  by (simp add: bodyReader_def)

lemma firehose_headers_encoding: "Header_Get firehose_headers ''Content-Encoding'' = []"
  by (simp add: firehose_headers_def Header_Get_def)

lemma Itoa_clock0: "Itoa (Unix (clock 0)) = ''1700000000''"
  by (simp add: Itoa_def Unix_def clock_def char_of_def bit_Suc_0_iff)

text \<open>
  Claim C8: for a batch envelope that decodes and has no records, the handler answers 200
  with the requestId of the envelope in the body, and forwards nothing. The body is
  written out: the requestId stands in it, between the quotes of the \<^verbatim>\<open>requestId\<close>
  field, followed by the time of the reply in seconds.
\<close>

theorem ServeHTTP_empty_batch:
  assumes "bodyReader d req = Inr r"
    and "json_Decode d r = Inr firehoseReq"
    and "Records firehoseReq = []"
  shows \<open>ServeHTTP d h req st =
     (Responded \<lparr>StatusCode = 200, ContentType = ''application/json'',
        ResponseBody = ''{"requestId": "'' @ RequestID firehoseReq @ ''", "timestamp": ''
                         @ Itoa (Unix (time_Now d (ticks st))) @ ''}''\<rparr>,
      st\<lparr>ticks := Suc (ticks st)\<rparr>)
     \<and> sent (snd (ServeHTTP d h req st)) = sent st\<close>
  using assms by (simp add: ServeHTTP_def sendAPIResponse_eq StatusOK_def successResponse_def)

text \<open>The reply to an empty batch.\<close>

theorem ServeHTTP_empty_batch_witness:
  \<open>bodyReader example_deps \<lparr>Header = firehose_headers, Body = body_empty\<rparr> = Inr (body_empty, None)
   \<and> json_Decode example_deps (body_empty, None)
       = Inr \<lparr>RequestID = ''req-1'', Timestamp = 1700000000000, Records = []\<rparr>
   \<and> ServeHTTP example_deps no_rules \<lparr>Header = firehose_headers, Body = body_empty\<rparr> init =
       (Responded \<lparr>StatusCode = 200, ContentType = ''application/json'',
          ResponseBody = ''{"requestId": "req-1", "timestamp": 1700000000}''\<rparr>,
        init\<lparr>ticks := 1\<rparr>)
   \<and> sent (snd (ServeHTTP example_deps no_rules \<lparr>Header = firehose_headers, Body = body_empty\<rparr> init)) = []\<close>
proof -
  have r: "bodyReader example_deps \<lparr>Header = firehose_headers, Body = body_empty\<rparr> = Inr (body_empty, None)"
    by (simp add: bodyReader_plain firehose_headers_encoding)
  have j: "json_Decode example_deps (body_empty, None)
       = Inr \<lparr>RequestID = ''req-1'', Timestamp = 1700000000000, Records = []\<rparr>"
    by (simp add: example_deps_def decode_table_def)
  have t: "time_Now example_deps (ticks init) = clock 0"
    by (simp add: example_deps_def init_def)
  from ServeHTTP_empty_batch[OF r j, of no_rules init] r j show ?thesis
    by (simp add: t Itoa_clock0) (simp add: init_def)
qed

text \<open>
  The replies of a request whose envelope decodes are JSON and carry its requestId; those
  of a request whose body cannot be read or decoded are written by \<^verbatim>\<open>http.Error\<close>.
\<close>

lemma ServeHTTP_parsed_response:
  assumes "bodyReader d req = Inr r" and "json_Decode d r = Inr firehoseReq"
    and "ServeHTTP d h req st = (Responded resp, st')"
  shows "ContentType resp = ''application/json''
     \<and> (\<exists>ts. ResponseBody resp = successResponse (RequestID firehoseReq) ts
            \<or> ResponseBody resp = errorResponse (RequestID firehoseReq) ts ''failed to decode record''
            \<or> ResponseBody resp
                = errorResponse (RequestID firehoseReq) ts ''failed to handle cloudwatch record'')"
proof (cases "recordsLoop d h (RequestID firehoseReq) (buildCommonLabels d (Header req))
                (Records firehoseReq) st")
  case (Pair out st1)
  show ?thesis
  proof (cases out)
    case None
    with Pair assms show ?thesis
      by (auto simp: ServeHTTP_def sendAPIResponse_eq)
  next
    case (Some o1)
    with Pair assms have "o1 = Responded resp" by (simp add: ServeHTTP_def)
    with Pair Some recordsLoop_responses[of d h "RequestID firehoseReq"
        "buildCommonLabels d (Header req)" "Records firehoseReq" st resp st1]
    show ?thesis by auto
  qed
qed

lemma ServeHTTP_unparsed_response:
  "bodyReader d req = Inl err \<Longrightarrow>
     ServeHTTP d h req st = (Responded (http_Error err 400), incErrors ''pre_read'' st)"
  "bodyReader d req = Inr r \<Longrightarrow> json_Decode d r = Inl err \<Longrightarrow>
     ServeHTTP d h req st = (Responded (http_Error err 400), incErrors ''read_or_format'' st)"
  by (simp_all add: ServeHTTP_def StatusBadRequest_def)

text \<open>
  Claim C3: when a record of a batch fails to base64-decode, the handler answers with a
  400 error that carries the requestId of the batch, and forwards no entry of a later
  record. A record before the failing one that decodes to fewer than three bytes makes
  the handler panic first (the defect of C1): in the batch with the records \<^verbatim>\<open>""\<close> and
  \<^verbatim>\<open>"!"\<close> the second record is not base64, and the handler panics on the first and
  writes no response.
\<close>

theorem ServeHTTP_short_record_panics:
  "json_Decode example_deps (body_short, None)
     = Inr \<lparr>RequestID = ''req-2'', Timestamp = 1700000000000,
            Records = [\<lparr>Data = []\<rparr>, \<lparr>Data = ''!''\<rparr>]\<rparr>
   \<and> DecodeString ''!'' = Inl CorruptInputError
   \<and> ServeHTTP example_deps no_rules \<lparr>Header = firehose_headers, Body = body_short\<rparr> init
       = (Panicked (IndexOutOfRange 0 0), init)"
proof -
  have r: "bodyReader example_deps \<lparr>Header = firehose_headers, Body = body_short\<rparr> = Inr (body_short, None)"
    by (simp add: bodyReader_def Header_Get_def firehose_headers_def)
  have j: "json_Decode example_deps (body_short, None)
     = Inr \<lparr>RequestID = ''req-2'', Timestamp = 1700000000000,
            Records = [\<lparr>Data = []\<rparr>, \<lparr>Data = ''!''\<rparr>]\<rparr>"
    by (simp add: example_deps_def decode_table_def body_short_def body_empty_def)
  have b: "DecodeString ''!'' = Inl CorruptInputError"
    by (simp add: b64_eval)
  have p: "decodeRecord example_deps [] = Panic (IndexOutOfRange 0 0)"
    by (simp add: decodeRecord_def DecodeString_def isGzipHeader_def index_def)
  have s: "ServeHTTP example_deps no_rules \<lparr>Header = firehose_headers, Body = body_short\<rparr> init
       = (Panicked (IndexOutOfRange 0 0), init)"
    by (simp add: ServeHTTP_def r j p)
  show ?thesis by (simp add: j b s)
qed

text \<open>
  Claim C4: every response, on every failure path, echoes the requestId and has the
  content type \<^verbatim>\<open>application/json\<close>. The replies to a body that is not gzip although
  the content encoding says so, and to a batch envelope that is not JSON, are plain text:
  the message of the library's error, without a requestId.
\<close>

theorem ServeHTTP_plain_text_errors:
  "ServeHTTP example_deps no_rules
      \<lparr>Header = firehose_headers(''Content-Encoding'' \<mapsto> ''gzip''), Body = ''this is not gzip''\<rparr> init
     = (Responded \<lparr>StatusCode = 400, ContentType = ''text/plain; charset=utf-8'',
                   ResponseBody = ''gzip: invalid header'' @ [CHR 0x0A]\<rparr>,
        init\<lparr>errors := [''pre_read'']\<rparr>)
   \<and> ServeHTTP example_deps no_rules \<lparr>Header = firehose_headers, Body = ''{''\<rparr> init
     = (Responded \<lparr>StatusCode = 400, ContentType = ''text/plain; charset=utf-8'',
                   ResponseBody = ''unexpected EOF'' @ [CHR 0x0A]\<rparr>,
        init\<lparr>errors := [''read_or_format'']\<rparr>)"
proof -
  have r1: "bodyReader example_deps
      \<lparr>Header = firehose_headers(''Content-Encoding'' \<mapsto> ''gzip''), Body = ''this is not gzip''\<rparr>
      = Inl ''gzip: invalid header''"
    by (simp add: bodyReader_def Header_Get_def example_deps_def gunzip_table_def gz_hi_def
          gz_data_message_def)
  have r2: "bodyReader example_deps \<lparr>Header = firehose_headers, Body = ''{''\<rparr> = Inr (''{'', None)"
    by (simp add: bodyReader_def Header_Get_def firehose_headers_def)
  have j2: "json_Decode example_deps (''{'', None) = Inl ''unexpected EOF''"
    by (simp add: example_deps_def decode_table_def body_short_def body_empty_def body_hello_def
          body_mixed_def)
  have 1: "ServeHTTP example_deps no_rules
      \<lparr>Header = firehose_headers(''Content-Encoding'' \<mapsto> ''gzip''), Body = ''this is not gzip''\<rparr> init
     = (Responded \<lparr>StatusCode = 400, ContentType = ''text/plain; charset=utf-8'',
                   ResponseBody = ''gzip: invalid header'' @ [CHR 0x0A]\<rparr>,
        init\<lparr>errors := [''pre_read'']\<rparr>)"
    by (simp add: ServeHTTP_def r1 http_Error_def StatusBadRequest_def incErrors_def init_def)
  have 2: "ServeHTTP example_deps no_rules \<lparr>Header = firehose_headers, Body = ''{''\<rparr> init
     = (Responded \<lparr>StatusCode = 400, ContentType = ''text/plain; charset=utf-8'',
                   ResponseBody = ''unexpected EOF'' @ [CHR 0x0A]\<rparr>,
        init\<lparr>errors := [''read_or_format'']\<rparr>)"
    by (simp add: ServeHTTP_def r2 j2 http_Error_def StatusBadRequest_def incErrors_def init_def)
  show ?thesis using 1 2 by (rule conjI)
qed

end
